theory Spec2Isabelle
  imports Main
begin

section \<open>Python strings\<close>

text \<open>
  A Python \<open>str\<close> is modelled as a \<open>string\<close> whose characters are the code points
  below 256. \<open>s.startswith(p)\<close>, the slice \<open>s[n:]\<close> (written \<open>drop n s\<close>) and
  \<open>s.splitlines()\<close> are the operations the screens use.
\<close>

definition startswith :: "string \<Rightarrow> string \<Rightarrow> bool" where
  "startswith s p = (take (length p) s = p)"

text \<open>The line boundaries of \<open>str.splitlines\<close> among the code points below 256.\<close>

definition is_line_boundary :: "char \<Rightarrow> bool" where
  "is_line_boundary c =
     (c = CHR 0x0A \<or> c = CHR 0x0B \<or> c = CHR 0x0C \<or> c = CHR 0x0D \<or>
      c = CHR 0x1C \<or> c = CHR 0x1D \<or> c = CHR 0x1E \<or> c = CHR 0x85)"

text \<open>
  \<open>splitlines_from cur rest\<close>: \<open>cur\<close> is the line read so far. A carriage return
  followed by a line feed is one boundary, and no empty line is produced at the end.
\<close>

fun splitlines_from :: "string \<Rightarrow> string \<Rightarrow> string list" where
  "splitlines_from cur [] = (if cur = [] then [] else [cur])"
| "splitlines_from cur [c] = (if is_line_boundary c then [cur] else [cur @ [c]])"
| "splitlines_from cur (c # d # cs) =
     (if c = CHR 0x0D \<and> d = CHR 0x0A then cur # splitlines_from [] cs
      else if is_line_boundary c then cur # splitlines_from [] (d # cs)
      else splitlines_from (cur @ [c]) (d # cs))"

definition splitlines :: "string \<Rightarrow> string list" where
  "splitlines s = splitlines_from [] s"

text \<open>\<open>'{}'.format(x)\<close> for a value that is a string or \<open>None\<close>.\<close>

definition py_format :: "string option \<Rightarrow> string" where
  "py_format x = (case x of None \<Rightarrow> ''None'' | Some v \<Rightarrow> v)"

text \<open>\<open>os.path.join\<close> of two components on a POSIX system.\<close>

definition os_path_join :: "string \<Rightarrow> string \<Rightarrow> string" where
  "os_path_join a b =
     (if startswith b ''/'' then b
      else if a = [] \<or> last a = CHR ''/'' then a @ b
      else a @ ''/'' @ b)"

section \<open>The widgets of the UI toolkit\<close>

datatype py_error = IndexError | TypeError | AttributeError

text \<open>
  Modelled from the spec: the selectable-list panel of the UI toolkit
  (clear / add-items / get-selected / set-selected-index); the widget class itself
  belongs to the toolkit library and is not among the sources. A panel holds its items
  in order and a selected index, which the toolkit only ever sets to 0 or moves within
  the list, so it is a natural number. \<open>clear\<close> empties the list and resets the
  selection to 0 (it "clears stale selection"); \<open>get\<close> returns \<open>None\<close> on an empty
  panel, the selected item otherwise, and indexing past the end raises \<open>IndexError\<close>.
\<close>

record scroll_menu =
  view_items :: "string list"
  selected_item :: nat

definition menu_clear :: "scroll_menu \<Rightarrow> scroll_menu" where
  "menu_clear m = m\<lparr>view_items := [], selected_item := 0\<rparr>"

definition add_item_list :: "string list \<Rightarrow> scroll_menu \<Rightarrow> scroll_menu" where
  "add_item_list xs m = m\<lparr>view_items := view_items m @ xs\<rparr>"

definition get_item_list :: "scroll_menu \<Rightarrow> string list" where
  "get_item_list m = view_items m"

definition menu_get :: "scroll_menu \<Rightarrow> py_error + string option" where
  "menu_get m =
     (if length (view_items m) > 0
      then (if selected_item m < length (view_items m)
            then Inr (Some (view_items m ! selected_item m))
            else Inl IndexError)
      else Inr None)"

record text_block =
  tb_text :: string
  tb_title :: string

section \<open>The Command Runner\<close>

type_synonym credentials = "string option \<times> string option"

text \<open>
  One constructor per function of \<open>pyautogit.commands\<close> the screen calls, with the
  arguments it is called with. A remote is \<open>menu.get()\<close>, which may be \<open>None\<close>.
\<close>

datatype cmd =
    GitStatusShort
  | GitGetRemotes
  | GitGetBranches
  | GitGetRemoteInfo "string option"
  | GitGetRecentCommits string
  | GitLog string
  | GitDiff
  | GitDiffFile string
  | GitAddRemote "string option" string
  | GitAddFile string
  | GitResetFile string
  | GitAddAll
  | GitCommitChanges string
  | GitPullBranch string "string option" credentials
  | GitPushToBranch string "string option" credentials
  | GitCreateNewBranch string
  | GitCheckoutBranch string
  | OpenDefaultEditor string string

text \<open>
  The Command Runner is a black box returning \<open>(out, err)\<close>. Its answer may depend on
  everything that was run before, so it is a function of the calls made so far and of
  the call itself; every theorem holds for an arbitrary runner.
\<close>

type_synonym command_runner = "cmd list \<Rightarrow> cmd \<Rightarrow> string \<times> int"

section \<open>The state of the screens\<close>

datatype text_callback = CbAskNewRemoteUrl | CbAddRemote | CbProcessMenuSelection

datatype cred_callback = CbPullRepoBranch | CbPushRepoBranch

datatype ui_event =
    ErrorPopup string string
  | MessagePopup string string
  | WarningPopup string string
  | TextBoxPopup string text_callback
  | MenuPopup string "string list" text_callback
  | CredentialsPrompt cred_callback
  | LoadingIconPopup string
  | StopLoadingPopup
  | LoseFocus

text \<open>
  The top manager's widgets and settings, the fields of \<open>RepoControlManager\<close>
  (\<open>message\<close>, \<open>status\<close>, \<open>utility_var\<close>), the labels of the settings screen, the two
  globals of the logger, the working directory, and two traces: the popups and focus
  changes shown to the user, and the calls made to the Command Runner.
\<close>

record manager =
  branch_menu :: scroll_menu
  remotes_menu :: scroll_menu
  add_files_menu :: scroll_menu
  commits_menu :: scroll_menu
  info_text_block :: text_block
  commit_message_box :: string
  new_branch_textbox :: string
  default_editor :: "string option"
  editor_type :: string
  credentials :: credentials
  cwd :: string
  message :: string
  status :: int
  utility_var :: "string option"
  popup_command :: "text_callback option"
  credentials_callback :: "cred_callback option"
  settings_info_panel :: string
  debug_log_status_label :: string
  editor_status_label :: string
  LOG_ENABLED :: bool
  LOG_FILE_PATH :: string
  ui_events :: "ui_event list"
  calls :: "cmd list"

text \<open>
  A handler either returns, or an exception leaves it; the mutations made before the
  exception stay, so both outcomes carry the state.
\<close>

datatype outcome = Done manager | Raised py_error manager

definition and_then :: "outcome \<Rightarrow> (manager \<Rightarrow> outcome) \<Rightarrow> outcome" where
  "and_then r f = (case r of Done s \<Rightarrow> f s | Raised e s \<Rightarrow> Raised e s)"

fun state_of :: "outcome \<Rightarrow> manager" where
  "state_of (Done s) = s"
| "state_of (Raised e s) = s"

fun error_of :: "outcome \<Rightarrow> py_error option" where
  "error_of (Done s) = None"
| "error_of (Raised e s) = Some e"

fun returned :: "outcome \<Rightarrow> bool" where
  "returned (Done s) = True"
| "returned (Raised e s) = False"

definition run_command :: "command_runner \<Rightarrow> cmd \<Rightarrow> manager \<Rightarrow> (string \<times> int) \<times> manager" where
  "run_command g c s = (g (calls s) c, s\<lparr>calls := calls s @ [c]\<rparr>)"

definition show_error_popup :: "string \<Rightarrow> string \<Rightarrow> manager \<Rightarrow> manager" where
  "show_error_popup t m s = s\<lparr>ui_events := ui_events s @ [ErrorPopup t m]\<rparr>"

definition show_message_popup :: "string \<Rightarrow> string \<Rightarrow> manager \<Rightarrow> manager" where
  "show_message_popup t m s = s\<lparr>ui_events := ui_events s @ [MessagePopup t m]\<rparr>"

definition show_warning_popup :: "string \<Rightarrow> string \<Rightarrow> manager \<Rightarrow> manager" where
  "show_warning_popup t m s = s\<lparr>ui_events := ui_events s @ [WarningPopup t m]\<rparr>"

definition show_text_box_popup :: "string \<Rightarrow> text_callback \<Rightarrow> manager \<Rightarrow> manager" where
  "show_text_box_popup t cb s =
     s\<lparr>ui_events := ui_events s @ [TextBoxPopup t cb], popup_command := Some cb\<rparr>"

definition show_menu_popup :: "string \<Rightarrow> string list \<Rightarrow> text_callback \<Rightarrow> manager \<Rightarrow> manager" where
  "show_menu_popup t items cb s =
     s\<lparr>ui_events := ui_events s @ [MenuPopup t items cb], popup_command := Some cb\<rparr>"

definition show_loading_icon_popup :: "string \<Rightarrow> manager \<Rightarrow> manager" where
  "show_loading_icon_popup t s = s\<lparr>ui_events := ui_events s @ [LoadingIconPopup t]\<rparr>"

definition stop_loading_popup :: "manager \<Rightarrow> manager" where
  "stop_loading_popup s = s\<lparr>ui_events := ui_events s @ [StopLoadingPopup]\<rparr>"

definition lose_focus :: "manager \<Rightarrow> manager" where
  "lose_focus s = s\<lparr>ui_events := ui_events s @ [LoseFocus]\<rparr>"

section \<open>repo\_control\_screen.py: the queries and the refresh\<close>

definition get_repo_status_short :: "command_runner \<Rightarrow> manager \<Rightarrow> manager" where
  "get_repo_status_short g s =
     (case run_command g GitStatusShort s of
        ((out, err), s1) \<Rightarrow>
          if err < 0 then show_error_popup ''Cannot get git status'' out s1
          else s1\<lparr>add_files_menu :=
                    add_item_list (splitlines out) (menu_clear (add_files_menu s1))\<rparr>)"

definition get_repo_remotes :: "command_runner \<Rightarrow> manager \<Rightarrow> manager" where
  "get_repo_remotes g s =
     (case run_command g GitGetRemotes s of
        ((out, err), s1) \<Rightarrow>
          if err < 0 then show_error_popup ''Cannot get git remotes'' out s1
          else s1\<lparr>remotes_menu :=
                    add_item_list (splitlines out) (menu_clear (remotes_menu s1))\<rparr>)"

text \<open>
  The loop of \<open>get_repo_branches\<close>: \<open>n\<close> is \<open>selected_branch\<close>, counted up until an
  item starts with the marker (\<open>break\<close>) or the items are exhausted.
\<close>

fun scan_branches :: "string list \<Rightarrow> nat \<Rightarrow> nat" where
  "scan_branches [] n = n"
| "scan_branches (branch # rest) n =
     (if startswith branch ''*'' then n else scan_branches rest (n + 1))"

definition get_repo_branches :: "command_runner \<Rightarrow> manager \<Rightarrow> manager" where
  "get_repo_branches g s =
     (case run_command g GitGetBranches s of
        ((out, err), s1) \<Rightarrow>
          if err < 0 then show_error_popup ''Cannot get git branches'' out s1
          else
            (let m = add_item_list (splitlines out) (menu_clear (branch_menu s1));
                 selected_branch = scan_branches (get_item_list m) 0
             in s1\<lparr>branch_menu := m\<lparr>selected_item := selected_branch\<rparr>\<rparr>))"

definition show_remote_info :: "command_runner \<Rightarrow> manager \<Rightarrow> outcome" where
  "show_remote_info g s =
     (case menu_get (branch_menu s) of
        Inl e \<Rightarrow> Raised e s
      | Inr None \<Rightarrow> Done s
      | Inr (Some b) \<Rightarrow>
          (case menu_get (remotes_menu s) of
             Inl e \<Rightarrow> Raised e s
           | Inr remote \<Rightarrow>
               (case run_command g (GitGetRemoteInfo remote) s of
                  ((out, err), s1) \<Rightarrow>
                    if err < 0 then Done (show_error_popup ''Cannot get remote info'' out s1)
                    else Done (s1\<lparr>info_text_block :=
                                 \<lparr>tb_text = out,
                                  tb_title = py_format remote @ '' remote info''\<rparr>\<rparr>))))"

definition get_recent_commits :: "command_runner \<Rightarrow> manager \<Rightarrow> outcome" where
  "get_recent_commits g s =
     (case menu_get (branch_menu s) of
        Inl e \<Rightarrow> Raised e s
      | Inr None \<Rightarrow> Done s
      | Inr (Some b) \<Rightarrow>
          (let branch = drop 2 b in
           case run_command g (GitGetRecentCommits branch) s of
             ((out, err), s1) \<Rightarrow>
               if err < 0 then Done (show_error_popup ''Cannot get recent commits'' out s1)
               else Done (s1\<lparr>commits_menu :=
                            add_item_list (splitlines out) (menu_clear (commits_menu s1))\<rparr>)))"

text \<open>
  The two closing tests of \<open>refresh_git_status\<close>: the index saved before the
  refresh is written back when the new item list is longer than it.
\<close>

definition restore_selection :: "nat \<Rightarrow> scroll_menu \<Rightarrow> scroll_menu" where
  "restore_selection i m =
     (if length (get_item_list m) > i then m\<lparr>selected_item := i\<rparr> else m)"

definition refresh_git_status :: "command_runner \<Rightarrow> manager \<Rightarrow> outcome" where
  "refresh_git_status g s =
     (let remote = selected_item (remotes_menu s);
          selected_file = selected_item (add_files_menu s);
          s1 = get_repo_branches g s;
          s2 = get_repo_remotes g s1;
          s3 = get_repo_status_short g s2
      in and_then (get_recent_commits g s3)
           (\<lambda>s4. Done (s4\<lparr>remotes_menu := restore_selection remote (remotes_menu s4),
                           add_files_menu :=
                             restore_selection selected_file (add_files_menu s4)\<rparr>)))"

section \<open>repo\_control\_screen.py: the actions\<close>

definition show_log :: "command_runner \<Rightarrow> manager \<Rightarrow> outcome" where
  "show_log g s =
     (case menu_get (branch_menu s) of
        Inl e \<Rightarrow> Raised e s
      | Inr None \<Rightarrow> Done s
      | Inr (Some b) \<Rightarrow>
          (let branch = drop 2 b in
           case run_command g (GitLog branch) s of
             ((out, err), s1) \<Rightarrow>
               if err < 0
               then Done (show_error_popup
                            (''Unable to show git log for branch '' @ branch @ ''.'') out s1)
               else Done (s1\<lparr>info_text_block :=
                            (info_text_block s1)\<lparr>tb_text := out, tb_title := ''Git log''\<rparr>\<rparr>)))"

definition open_git_diff :: "command_runner \<Rightarrow> manager \<Rightarrow> manager" where
  "open_git_diff g s =
     (case run_command g GitDiff s of
        ((out, err), s1) \<Rightarrow>
          if err < 0 then show_error_popup ''Unable to show git diff repo.'' out s1
          else s1\<lparr>info_text_block :=
                    (info_text_block s1)\<lparr>tb_text := out, tb_title := ''Git Diff''\<rparr>\<rparr>)"

text \<open>
  Slicing or calling a method on \<open>None\<close> (an empty panel's \<open>get()\<close>) raises
  \<open>TypeError\<close> or \<open>AttributeError\<close>.
\<close>

definition open_git_diff_file :: "command_runner \<Rightarrow> manager \<Rightarrow> outcome" where
  "open_git_diff_file g s =
     (case menu_get (add_files_menu s) of
        Inl e \<Rightarrow> Raised e s
      | Inr None \<Rightarrow> Raised TypeError s
      | Inr (Some f) \<Rightarrow>
          (let filename = drop 3 f in
           case run_command g (GitDiffFile filename) s of
             ((out, err), s1) \<Rightarrow>
               if err < 0
               then Done (show_error_popup
                            (''Unable to show git diff for file '' @ filename @ ''.'') out s1)
               else Done (s1\<lparr>info_text_block :=
                            (info_text_block s1)\<lparr>tb_text := out,
                              tb_title := ''Git Diff - '' @ filename\<rparr>\<rparr>)))"

text \<open>
  \<open>open_editor\<close>: the result of \<open>os.path.join(current_path, file)\<close> is not bound to
  any name; \<open>joined\<close> below is that discarded value.
\<close>

definition open_editor :: "command_runner \<Rightarrow> string option \<Rightarrow> manager \<Rightarrow> manager" where
  "open_editor g file s =
     (case default_editor s of
        None \<Rightarrow> show_error_popup ''Error'' ''No default editor specified.'' s
      | Some editor \<Rightarrow>
          (let current_path = cwd s;
               joined = (case file of None \<Rightarrow> None
                         | Some f \<Rightarrow> Some (os_path_join current_path f))
           in case run_command g (OpenDefaultEditor editor current_path) s of
                ((out, err), s1) \<Rightarrow>
                  if err \<noteq> 0 then show_error_popup ''Failed to open editor.'' out s1
                  else show_message_popup (''Opened '' @ current_path)
                         (''Opened '' @ editor @ '' editor in external window'') s1))"

definition open_editor_file :: "command_runner \<Rightarrow> manager \<Rightarrow> outcome" where
  "open_editor_file g s =
     (case menu_get (add_files_menu s) of
        Inl e \<Rightarrow> Raised e s
      | Inr None \<Rightarrow> Raised TypeError s
      | Inr (Some f) \<Rightarrow> Done (open_editor g (Some (drop 3 f)) s))"

definition add_all_changes :: "command_runner \<Rightarrow> manager \<Rightarrow> outcome" where
  "add_all_changes g s =
     (case run_command g GitAddAll s of
        ((out, err), s1) \<Rightarrow>
          if err \<noteq> 0 then Done (show_error_popup ''Git Add Error'' out s1)
          else refresh_git_status g s1)"

definition add_revert_file :: "command_runner \<Rightarrow> manager \<Rightarrow> outcome" where
  "add_revert_file g s =
     (case menu_get (add_files_menu s) of
        Inl e \<Rightarrow> Raised e s
      | Inr None \<Rightarrow> Raised AttributeError s
      | Inr (Some filename) \<Rightarrow>
          (case (if startswith filename '' '' \<or> startswith filename ''?''
                 then run_command g (GitAddFile (drop 3 filename)) s
                 else run_command g (GitResetFile (drop 3 filename)) s) of
             ((out, err), s1) \<Rightarrow>
               if err < 0
               then Done (show_error_popup (''Cannot add/revert file '' @ filename) out s1)
               else refresh_git_status g s1))"

definition add_remote :: "command_runner \<Rightarrow> string \<Rightarrow> manager \<Rightarrow> outcome" where
  "add_remote g remote_url s =
     (let remote_name = utility_var s;
          s0 = s\<lparr>utility_var := None\<rparr>
      in case run_command g (GitAddRemote remote_name remote_url) s0 of
           ((out, err), s1) \<Rightarrow>
             if err < 0 then Done (show_error_popup ''Failed to add remote'' out s1)
             else refresh_git_status g (s1\<lparr>remotes_menu := menu_clear (remotes_menu s1)\<rparr>))"

definition ask_new_remote_url :: "string \<Rightarrow> manager \<Rightarrow> manager" where
  "ask_new_remote_url remote_name s =
     show_text_box_popup ''Please enter the new remote url.'' CbAddRemote
       (s\<lparr>utility_var := Some remote_name\<rparr>)"

definition ask_new_remote_name :: "manager \<Rightarrow> manager" where
  "ask_new_remote_name s =
     show_text_box_popup ''Please enter the new remote name.'' CbAskNewRemoteUrl s"

definition menu_choices :: "string list" where
  "menu_choices = [''Add Remote'', ''Add All'', ''Push Branch'', ''Pull Branch'']"

definition process_menu_selection :: "string \<Rightarrow> manager \<Rightarrow> manager" where
  "process_menu_selection selection s =
     (if selection = ''Add Remote'' then ask_new_remote_name s
      else show_warning_popup ''Warning - Not supported''
             ''This menu item has not yet been implemented.'' s)"

definition show_menu :: "manager \<Rightarrow> manager" where
  "show_menu s = show_menu_popup ''Full Control Menu'' menu_choices CbProcessMenuSelection s"

definition pull_repo_branch :: "command_runner \<Rightarrow> manager \<Rightarrow> outcome" where
  "pull_repo_branch g s =
     (case menu_get (branch_menu s) of
        Inl e \<Rightarrow> Raised e s
      | Inr None \<Rightarrow> Raised TypeError s
      | Inr (Some b) \<Rightarrow>
          (let branch = drop 2 b in
           case menu_get (remotes_menu s) of
             Inl e \<Rightarrow> Raised e s
           | Inr remote \<Rightarrow>
               (case run_command g (GitPullBranch branch remote (credentials s)) s of
                  ((out, err), s1) \<Rightarrow>
                    refresh_git_status g
                      (if err \<noteq> 0 then show_error_popup ''Failed to pull from remote'' out s1
                       else show_message_popup ''Pulled branch''
                              (''Successfully pulled branch '' @ branch @ '' from remote ''
                                 @ py_format remote)
                              (s1\<lparr>info_text_block :=
                                    (info_text_block s1)\<lparr>tb_text := out,
                                      tb_title := ''Git Pull Status - '' @ py_format remote
                                                    @ '' - '' @ branch\<rparr>\<rparr>)))))"

definition commit :: "command_runner \<Rightarrow> manager \<Rightarrow> outcome" where
  "commit g s =
     (let commit_message = commit_message_box s in
      case run_command g (GitCommitChanges commit_message) s of
        ((out, err), s1) \<Rightarrow>
          and_then
            (if err \<noteq> 0 then Done (show_error_popup ''Commit failed!'' out s1)
             else and_then
                    (refresh_git_status g
                       (show_message_popup ''Success'' (''Committed: '' @ commit_message) s1))
                    (show_log g))
            (\<lambda>s2. Done (s2\<lparr>commit_message_box := []\<rparr>)))"

definition push_repo_branch :: "command_runner \<Rightarrow> manager \<Rightarrow> outcome" where
  "push_repo_branch g s =
     (case menu_get (branch_menu s) of
        Inl e \<Rightarrow> Raised e s
      | Inr None \<Rightarrow> Raised TypeError s
      | Inr (Some b) \<Rightarrow>
          (let branch = drop 2 b in
           case menu_get (remotes_menu s) of
             Inl e \<Rightarrow> Raised e s
           | Inr remote \<Rightarrow>
               (case run_command g (GitPushToBranch branch remote (credentials s)) s of
                  ((out, err), s1) \<Rightarrow>
                    and_then (refresh_git_status g (s1\<lparr>message := out, status := err\<rparr>))
                      (\<lambda>s2. Done (stop_loading_popup
                                     (s2\<lparr>info_text_block :=
                                           (info_text_block s2)\<lparr>tb_text := message s2\<rparr>\<rparr>))))))"

definition show_push_result :: "manager \<Rightarrow> manager" where
  "show_push_result s =
     (if status s \<noteq> 0 then show_error_popup ''Unable to push to remote!'' (message s) s
      else show_message_popup ''Pushed Successfully'' (message s) s)
     \<lparr>status := 0, message := []\<rparr>"

text \<open>
  On a non-zero status \<open>create_new_branch\<close> calls \<open>show_error_popup\<close> on the top
  manager itself, not on \<open>manager.root\<close>. It is the only such call: every other popup
  of both screens is reached through \<open>manager.root\<close>, and nothing in the sources gives
  the top manager a \<open>show_error_popup\<close> of its own. The attribute lookup therefore
  raises \<open>AttributeError\<close>, after the create command has run and before the focus is
  lost, the input cleared and the panels refreshed.
\<close>

definition create_new_branch :: "command_runner \<Rightarrow> manager \<Rightarrow> outcome" where
  "create_new_branch g s =
     (let new_branch_name = new_branch_textbox s in
      if length new_branch_name = 0
      then Done (show_error_popup ''ERROR - Illegal branchname''
                   ''Please enter a valid branchname.'' s)
      else
        (case run_command g (GitCreateNewBranch new_branch_name) s of
           ((out, err), s1) \<Rightarrow>
             if err \<noteq> 0 then Raised AttributeError s1
             else refresh_git_status g ((lose_focus s1)\<lparr>new_branch_textbox := []\<rparr>)))"

definition checkout_branch :: "command_runner \<Rightarrow> manager \<Rightarrow> outcome" where
  "checkout_branch g s =
     (case menu_get (branch_menu s) of
        Inl e \<Rightarrow> Raised e s
      | Inr None \<Rightarrow> Done s
      | Inr (Some b) \<Rightarrow>
          (let branch = drop 2 b in
           case run_command g (GitCheckoutBranch branch) s of
             ((out, err), s1) \<Rightarrow>
               refresh_git_status g
                 (if err \<noteq> 0 then show_error_popup ''Failed to checkout branch'' out s1
                  else show_message_popup ''Checkout Successful''
                         (''Checked out branch '' @ branch) s1)))"

section \<open>Credentials, prompts and long operations\<close>

text \<open>
  Modelled from the spec: \<open>were_credentials_entered\<close>, \<open>ask_credentials\<close> and
  \<open>perform_long_operation\<close> are methods of the top manager, which is not among the
  sources. Credentials are an optional user name and an optional password, supplied
  when both are present. \<open>ask_credentials\<close> shows the credential prompt sequence and
  keeps the requested operation as its completion callback. \<open>perform_long_operation\<close>
  shows a busy indicator with the label, runs the work and, when the work has
  completed, the completion callback; the work runs on another thread, of which only
  the order of its effects is kept here.
\<close>

definition were_credentials_entered :: "manager \<Rightarrow> bool" where
  "were_credentials_entered s = (fst (credentials s) \<noteq> None \<and> snd (credentials s) \<noteq> None)"

definition ask_credentials :: "cred_callback \<Rightarrow> manager \<Rightarrow> manager" where
  "ask_credentials cb s =
     s\<lparr>ui_events := ui_events s @ [CredentialsPrompt cb], credentials_callback := Some cb\<rparr>"

definition perform_long_operation ::
  "string \<Rightarrow> (manager \<Rightarrow> outcome) \<Rightarrow> (manager \<Rightarrow> manager) \<Rightarrow> manager \<Rightarrow> outcome" where
  "perform_long_operation label work on_done s =
     and_then (work (show_loading_icon_popup label s)) (\<lambda>s1. Done (on_done s1))"

definition pull_repo_branch_cred :: "command_runner \<Rightarrow> manager \<Rightarrow> outcome" where
  "pull_repo_branch_cred g s =
     (if \<not> were_credentials_entered s then Done (ask_credentials CbPullRepoBranch s)
      else pull_repo_branch g s)"

definition push_repo_branch_cred :: "command_runner \<Rightarrow> manager \<Rightarrow> outcome" where
  "push_repo_branch_cred g s =
     (if \<not> were_credentials_entered s then Done (ask_credentials CbPushRepoBranch s)
      else perform_long_operation ''Pushing'' (push_repo_branch g) show_push_result s)"

text \<open>
  The user completes the credential prompt sequence: the credentials are stored, so
  that the predicate holds, and the pending callback runs once and is consumed.
\<close>

definition enter_credentials :: "command_runner \<Rightarrow> string \<Rightarrow> string \<Rightarrow> manager \<Rightarrow> outcome" where
  "enter_credentials g username password s =
     (let s1 = s\<lparr>credentials := (Some username, Some password),
                  credentials_callback := None\<rparr>
      in case credentials_callback s of
           None \<Rightarrow> Done s1
         | Some CbPullRepoBranch \<Rightarrow> pull_repo_branch g s1
         | Some CbPushRepoBranch \<Rightarrow>
             perform_long_operation ''Pushing'' (push_repo_branch g) show_push_result s1)"

text \<open>
  The user submits the text of the open text box or menu popup: the popup closes and
  its command runs on the text.
\<close>

definition submit_popup :: "command_runner \<Rightarrow> string \<Rightarrow> manager \<Rightarrow> outcome" where
  "submit_popup g txt s =
     (let s1 = s\<lparr>popup_command := None\<rparr>
      in case popup_command s of
           None \<Rightarrow> Done s
         | Some CbAskNewRemoteUrl \<Rightarrow> Done (ask_new_remote_url txt s1)
         | Some CbAddRemote \<Rightarrow> add_remote g txt s1
         | Some CbProcessMenuSelection \<Rightarrow> Done (process_menu_selection txt s1))"

section \<open>settings\_screen.py\<close>

definition add_to_settings_log :: "string \<Rightarrow> manager \<Rightarrow> manager" where
  "add_to_settings_log txt s =
     s\<lparr>settings_info_panel := txt @ [CHR 0x0A] @ settings_info_panel s\<rparr>"

definition refresh_status :: "manager \<Rightarrow> manager" where
  "refresh_status s =
     (let logging_on_off = (if LOG_ENABLED s then ''ON'' else ''OFF'');
          log_file_path = LOG_FILE_PATH s
      in s\<lparr>debug_log_status_label := logging_on_off @ '' - '' @ log_file_path,
            editor_status_label := editor_type s @ '' - '' @ py_format (default_editor s)\<rparr>)"

definition toggle_editor_type :: "manager \<Rightarrow> manager" where
  "toggle_editor_type s =
     refresh_status
       (add_to_settings_log ''Swapped editor type''
          (if editor_type s = ''Internal'' then s\<lparr>editor_type := ''External''\<rparr>
           else s\<lparr>editor_type := ''Internal''\<rparr>))"

definition update_default_editor :: "string \<Rightarrow> manager \<Rightarrow> manager" where
  "update_default_editor new_editor s =
     (let s1 = s\<lparr>default_editor := Some new_editor\<rparr>;
          s2 = (if editor_type s1 = ''Internal'' then toggle_editor_type s1 else s1)
      in refresh_status
           (add_to_settings_log (''Update default editor to: '' @ new_editor) s2))"

section \<open>Observations on the traces\<close>

definition is_prompt :: "ui_event \<Rightarrow> bool" where
  "is_prompt e = (case e of CredentialsPrompt cb \<Rightarrow> True | _ \<Rightarrow> False)"

definition is_pull :: "cmd \<Rightarrow> bool" where
  "is_pull c = (case c of GitPullBranch b r cr \<Rightarrow> True | _ \<Rightarrow> False)"

definition is_push :: "cmd \<Rightarrow> bool" where
  "is_push c = (case c of GitPushToBranch b r cr \<Rightarrow> True | _ \<Rightarrow> False)"

definition prompts_shown :: "manager \<Rightarrow> ui_event list" where
  "prompts_shown s = filter is_prompt (ui_events s)"

definition pulls_run :: "manager \<Rightarrow> cmd list" where
  "pulls_run s = filter is_pull (calls s)"

definition pushes_run :: "manager \<Rightarrow> cmd list" where
  "pushes_run s = filter is_push (calls s)"

section \<open>Concrete scenarios\<close>

text \<open>
  States and Command Runners on which the theorems below are instantiated: an empty
  manager, a manager with two branches, three remotes and two changed files, and runners
  that answer every call alike (\<open>failing_runner\<close>), answer the queries and fail the
  actions with status 1 (\<open>nonzero_runner\<close>), or differ in the branch list they return.
\<close>

definition empty_menu :: scroll_menu where
  "empty_menu = \<lparr>view_items = [], selected_item = 0\<rparr>"

definition init_manager :: manager where
  "init_manager =
     \<lparr>branch_menu = empty_menu, remotes_menu = empty_menu, add_files_menu = empty_menu,
      commits_menu = empty_menu, info_text_block = \<lparr>tb_text = [], tb_title = []\<rparr>,
      commit_message_box = [], new_branch_textbox = [], default_editor = None,
      editor_type = ''Internal'', credentials = (None, None), cwd = ''/home/user/repo'',
      message = [], status = 0, utility_var = None, popup_command = None,
      credentials_callback = None, settings_info_panel = [], debug_log_status_label = [],
      editor_status_label = [], LOG_ENABLED = False, LOG_FILE_PATH = [],
      ui_events = [], calls = []\<rparr>"

definition repo_manager :: manager where
  "repo_manager =
     init_manager
       \<lparr>branch_menu := \<lparr>view_items = [''* main'', ''  dev''], selected_item = 0\<rparr>,
        remotes_menu := \<lparr>view_items = [''origin'', ''upstream'', ''fork''], selected_item = 2\<rparr>,
        add_files_menu := \<lparr>view_items = ['' M file.txt'', ''M  staged.txt''], selected_item = 0\<rparr>,
        commit_message_box := ''fix bug'',
        new_branch_textbox := ''feature-x'',
        default_editor := Some ''vim''\<rparr>"

definition healthy_runner :: command_runner where
  "healthy_runner hist c =
     (if c = GitGetBranches then (''* main'' @ [CHR 0x0A] @ ''  dev'', 0)
      else if c = GitGetRemotes then (''origin'' @ [CHR 0x0A] @ ''upstream'', 0)
      else if c = GitStatusShort then ('' M file.txt'', 0)
      else ([], 0))"

definition unmarked_runner :: command_runner where
  "unmarked_runner hist c =
     (if c = GitGetBranches then (''  main'' @ [CHR 0x0A] @ ''  dev'', 0) else ([], 0))"

definition second_marked_runner :: command_runner where
  "second_marked_runner hist c =
     (if c = GitGetBranches then (''  main'' @ [CHR 0x0A] @ ''* dev'', 0) else ([], 0))"

definition failing_runner :: command_runner where
  "failing_runner hist c = (''fatal: not a git repository'', - 1)"

definition partial_runner :: command_runner where
  "partial_runner hist c =
     (if c = GitGetBranches then (''fatal: bad revision'', - 1)
      else if c = GitGetRemotes then (''origin'', 0)
      else if c = GitGetRecentCommits ''main''
      then (''abc first'' @ [CHR 0x0A] @ ''def second'', 0)
      else ([], 0))"

definition staged_manager :: manager where
  "staged_manager =
     repo_manager
       \<lparr>add_files_menu :=
          \<lparr>view_items = ['' M file.txt'', ''M  staged.txt''], selected_item = 1\<rparr>\<rparr>"

definition nonzero_runner :: command_runner where
  "nonzero_runner hist c =
     (if c = GitGetBranches then (''* main'' @ [CHR 0x0A] @ ''  dev'', 0)
      else if c = GitGetRemotes then (''origin'' @ [CHR 0x0A] @ ''upstream'', 0)
      else if c = GitStatusShort then ('' M file.txt'', 0)
      else (''error: command failed'', 1))"

definition logged_in_manager :: manager where
  "logged_in_manager = repo_manager\<lparr>credentials := (Some ''alice'', Some ''secret'')\<rparr>"

section \<open>Basic facts\<close>

lemma and_then_Done [simp]: "and_then (Done s) f = f s"
  by (simp add: and_then_def)

lemma and_then_Raised [simp]: "and_then (Raised e s) f = Raised e s"
  by (simp add: and_then_def)

section \<open>The queries and the refresh, field by field\<close>

lemma scan_branches_eq:
  "scan_branches bs n = n + length (takeWhile (\<lambda>b. \<not> startswith b ''*'') bs)"
  by (induction bs arbitrary: n) simp_all

lemmas query_unfold = run_command_def show_error_popup_def case_prod_beta Let_def

lemma get_repo_branches_frame [simp]:
  "calls (get_repo_branches g s) = calls s @ [GitGetBranches]"
  "remotes_menu (get_repo_branches g s) = remotes_menu s"
  "add_files_menu (get_repo_branches g s) = add_files_menu s"
  "commits_menu (get_repo_branches g s) = commits_menu s"
  "info_text_block (get_repo_branches g s) = info_text_block s"
  "commit_message_box (get_repo_branches g s) = commit_message_box s"
  "new_branch_textbox (get_repo_branches g s) = new_branch_textbox s"
  "credentials (get_repo_branches g s) = credentials s"
  "credentials_callback (get_repo_branches g s) = credentials_callback s"
  "popup_command (get_repo_branches g s) = popup_command s"
  "utility_var (get_repo_branches g s) = utility_var s"
  "message (get_repo_branches g s) = message s"
  "status (get_repo_branches g s) = status s"
  by (simp_all add: get_repo_branches_def query_unfold)

lemma get_repo_remotes_frame [simp]:
  "calls (get_repo_remotes g s) = calls s @ [GitGetRemotes]"
  "branch_menu (get_repo_remotes g s) = branch_menu s"
  "add_files_menu (get_repo_remotes g s) = add_files_menu s"
  "commits_menu (get_repo_remotes g s) = commits_menu s"
  "info_text_block (get_repo_remotes g s) = info_text_block s"
  "commit_message_box (get_repo_remotes g s) = commit_message_box s"
  "new_branch_textbox (get_repo_remotes g s) = new_branch_textbox s"
  "credentials (get_repo_remotes g s) = credentials s"
  "credentials_callback (get_repo_remotes g s) = credentials_callback s"
  "popup_command (get_repo_remotes g s) = popup_command s"
  "utility_var (get_repo_remotes g s) = utility_var s"
  "message (get_repo_remotes g s) = message s"
  "status (get_repo_remotes g s) = status s"
  by (simp_all add: get_repo_remotes_def query_unfold)

lemma get_repo_status_short_frame [simp]:
  "calls (get_repo_status_short g s) = calls s @ [GitStatusShort]"
  "branch_menu (get_repo_status_short g s) = branch_menu s"
  "remotes_menu (get_repo_status_short g s) = remotes_menu s"
  "commits_menu (get_repo_status_short g s) = commits_menu s"
  "info_text_block (get_repo_status_short g s) = info_text_block s"
  "commit_message_box (get_repo_status_short g s) = commit_message_box s"
  "new_branch_textbox (get_repo_status_short g s) = new_branch_textbox s"
  "credentials (get_repo_status_short g s) = credentials s"
  "credentials_callback (get_repo_status_short g s) = credentials_callback s"
  "popup_command (get_repo_status_short g s) = popup_command s"
  "utility_var (get_repo_status_short g s) = utility_var s"
  "message (get_repo_status_short g s) = message s"
  "status (get_repo_status_short g s) = status s"
  by (simp_all add: get_repo_status_short_def query_unfold)

lemma queries_prompts [simp]:
  "filter is_prompt (ui_events (get_repo_branches g s)) = filter is_prompt (ui_events s)"
  "filter is_prompt (ui_events (get_repo_remotes g s)) = filter is_prompt (ui_events s)"
  "filter is_prompt (ui_events (get_repo_status_short g s)) = filter is_prompt (ui_events s)"
  by (simp_all add: get_repo_branches_def get_repo_remotes_def get_repo_status_short_def
      query_unfold is_prompt_def)

lemma get_recent_commits_returned [simp]:
  "returned (get_recent_commits g s) = (\<not> isl (menu_get (branch_menu s)))"
  by (simp add: get_recent_commits_def query_unfold split: sum.split option.split)

lemma get_recent_commits_calls [simp]:
  "calls (state_of (get_recent_commits g s)) =
     calls s @ (case menu_get (branch_menu s) of
                  Inr (Some b) \<Rightarrow> [GitGetRecentCommits (drop 2 b)]
                | _ \<Rightarrow> [])"
  by (simp add: get_recent_commits_def query_unfold split: sum.split option.split)

lemma get_recent_commits_frame [simp]:
  "branch_menu (state_of (get_recent_commits g s)) = branch_menu s"
  "remotes_menu (state_of (get_recent_commits g s)) = remotes_menu s"
  "add_files_menu (state_of (get_recent_commits g s)) = add_files_menu s"
  "info_text_block (state_of (get_recent_commits g s)) = info_text_block s"
  "commit_message_box (state_of (get_recent_commits g s)) = commit_message_box s"
  "new_branch_textbox (state_of (get_recent_commits g s)) = new_branch_textbox s"
  "credentials (state_of (get_recent_commits g s)) = credentials s"
  "credentials_callback (state_of (get_recent_commits g s)) = credentials_callback s"
  "popup_command (state_of (get_recent_commits g s)) = popup_command s"
  "utility_var (state_of (get_recent_commits g s)) = utility_var s"
  "message (state_of (get_recent_commits g s)) = message s"
  "status (state_of (get_recent_commits g s)) = status s"
  "filter is_prompt (ui_events (state_of (get_recent_commits g s))) =
     filter is_prompt (ui_events s)"
  by (simp_all add: get_recent_commits_def query_unfold is_prompt_def
      split: sum.split option.split)

lemma and_then_Done_state:
  "state_of (and_then r (\<lambda>s. Done (h s))) = (if returned r then h (state_of r) else state_of r)"
  by (cases r) simp_all

lemma and_then_Done_returned:
  "returned (and_then r (\<lambda>s. Done (h s))) = returned r"
  by (cases r) simp_all

lemmas refresh_unfold = refresh_git_status_def Let_def and_then_Done_state
  and_then_Done_returned

lemma refresh_returned:
  "returned (refresh_git_status g s) = (\<not> isl (menu_get (branch_menu (get_repo_branches g s))))"
  by (simp add: refresh_unfold)

lemma refresh_branch_menu:
  "branch_menu (state_of (refresh_git_status g s)) = branch_menu (get_repo_branches g s)"
  by (simp add: refresh_unfold)

lemma refresh_calls:
  "calls (state_of (refresh_git_status g s)) =
     calls s @ [GitGetBranches, GitGetRemotes, GitStatusShort] @
       (case menu_get (branch_menu (get_repo_branches g s)) of
          Inr (Some b) \<Rightarrow> [GitGetRecentCommits (drop 2 b)]
        | _ \<Rightarrow> [])"
  by (simp add: refresh_unfold)

lemma refresh_frame:
  "commit_message_box (state_of (refresh_git_status g s)) = commit_message_box s"
  "new_branch_textbox (state_of (refresh_git_status g s)) = new_branch_textbox s"
  "info_text_block (state_of (refresh_git_status g s)) = info_text_block s"
  "credentials (state_of (refresh_git_status g s)) = credentials s"
  "credentials_callback (state_of (refresh_git_status g s)) = credentials_callback s"
  "popup_command (state_of (refresh_git_status g s)) = popup_command s"
  "utility_var (state_of (refresh_git_status g s)) = utility_var s"
  "message (state_of (refresh_git_status g s)) = message s"
  "status (state_of (refresh_git_status g s)) = status s"
  by (simp_all add: refresh_unfold)

lemma refresh_prompts:
  "filter is_prompt (ui_events (state_of (refresh_git_status g s))) =
     filter is_prompt (ui_events s)"
  by (simp add: refresh_unfold)

section \<open>The panels after a fetch\<close>

lemmas eval_defs = repo_manager_def init_manager_def empty_menu_def healthy_runner_def
  unmarked_runner_def second_marked_runner_def failing_runner_def
  menu_get_def menu_clear_def add_item_list_def get_item_list_def restore_selection_def
  splitlines_def startswith_def is_line_boundary_def

lemma get_repo_branches_menu:
  "branch_menu (get_repo_branches g s) =
     (if snd (g (calls s) GitGetBranches) < 0 then branch_menu s
      else (add_item_list (splitlines (fst (g (calls s) GitGetBranches)))
              (menu_clear (branch_menu s)))
           \<lparr>selected_item := scan_branches (splitlines (fst (g (calls s) GitGetBranches))) 0\<rparr>)"
  by (simp add: get_repo_branches_def query_unfold get_item_list_def add_item_list_def
      menu_clear_def)

lemma get_repo_remotes_menu:
  "remotes_menu (get_repo_remotes g s) =
     (if snd (g (calls s) GitGetRemotes) < 0 then remotes_menu s
      else add_item_list (splitlines (fst (g (calls s) GitGetRemotes)))
             (menu_clear (remotes_menu s)))"
  by (simp add: get_repo_remotes_def query_unfold)

lemma get_repo_status_short_menu:
  "add_files_menu (get_repo_status_short g s) =
     (if snd (g (calls s) GitStatusShort) < 0 then add_files_menu s
      else add_item_list (splitlines (fst (g (calls s) GitStatusShort)))
             (menu_clear (add_files_menu s)))"
  by (simp add: get_repo_status_short_def query_unfold)

lemma refresh_remotes_menu:
  "remotes_menu (state_of (refresh_git_status g s)) =
     (if returned (refresh_git_status g s)
      then restore_selection (selected_item (remotes_menu s))
             (remotes_menu (get_repo_remotes g (get_repo_branches g s)))
      else remotes_menu (get_repo_remotes g (get_repo_branches g s)))"
  by (simp add: refresh_unfold)

lemma get_recent_commits_menu:
  "commits_menu (state_of (get_recent_commits g s)) =
     (case menu_get (branch_menu s) of
        Inr (Some b) \<Rightarrow>
          if snd (g (calls s) (GitGetRecentCommits (drop 2 b))) < 0 then commits_menu s
          else add_item_list (splitlines (fst (g (calls s) (GitGetRecentCommits (drop 2 b)))))
                 (menu_clear (commits_menu s))
      | _ \<Rightarrow> commits_menu s)"
  by (simp add: get_recent_commits_def query_unfold split: sum.split option.split)

lemma refresh_commits_menu:
  "commits_menu (state_of (refresh_git_status g s)) =
     (case menu_get (branch_menu (get_repo_branches g s)) of
        Inr (Some b) \<Rightarrow>
          if snd (g (calls s @ [GitGetBranches, GitGetRemotes, GitStatusShort])
                    (GitGetRecentCommits (drop 2 b))) < 0
          then commits_menu s
          else add_item_list
                 (splitlines (fst (g (calls s @ [GitGetBranches, GitGetRemotes, GitStatusShort])
                                     (GitGetRecentCommits (drop 2 b)))))
                 (menu_clear (commits_menu s))
      | _ \<Rightarrow> commits_menu s)"
  by (simp add: refresh_unfold get_recent_commits_menu split: sum.split option.split)

lemma refresh_add_files_menu:
  "add_files_menu (state_of (refresh_git_status g s)) =
     (if returned (refresh_git_status g s)
      then restore_selection (selected_item (add_files_menu s))
             (add_files_menu
                (get_repo_status_short g (get_repo_remotes g (get_repo_branches g s))))
      else add_files_menu
             (get_repo_status_short g (get_repo_remotes g (get_repo_branches g s))))"
  by (simp add: refresh_unfold)

lemmas menu_unfold = restore_selection_def get_item_list_def add_item_list_def menu_clear_def

section \<open>The branch panel\<close>

lemma scan_branches_marked:
  "i < length bs \<Longrightarrow> startswith (bs ! i) ''*'' \<Longrightarrow>
   \<forall>j<i. \<not> startswith (bs ! j) ''*'' \<Longrightarrow> scan_branches bs n = n + i"
proof (induction bs arbitrary: i n)
  case Nil
  then show ?case by simp
next
  case (Cons b bs)
  show ?case
  proof (cases i)
    case 0
    with Cons.prems show ?thesis by simp
  next
    case (Suc k)
    from Cons.prems(3) Suc have first: "\<not> startswith b ''*''"
      by (metis nth_Cons_0 zero_less_Suc)
    have rest: "\<forall>j<k. \<not> startswith (bs ! j) ''*''"
    proof (intro allI impI)
      fix j assume "j < k"
      then have "Suc j < i" using Suc by simp
      with Cons.prems(3) have "\<not> startswith ((b # bs) ! Suc j) ''*''" by blast
      then show "\<not> startswith (bs ! j) ''*''" by simp
    qed
    from Cons.prems(1,2) Suc have "k < length bs" "startswith (bs ! k) ''*''"
      by simp_all
    from Cons.IH [OF this rest, of "n + 1"] first Suc show ?thesis by simp
  qed
qed

lemma scan_branches_unmarked:
  "\<forall>b\<in>set bs. \<not> startswith b ''*'' \<Longrightarrow> scan_branches bs n = n + length bs"
  by (induction bs arbitrary: n) simp_all

lemma scan_branches_in_range:
  "\<exists>b\<in>set bs. startswith b ''*'' \<Longrightarrow> scan_branches bs n < n + length bs"
proof (induction bs arbitrary: n)
  case Nil
  then show ?case by simp
next
  case (Cons a bs)
  show ?case
  proof (cases "startswith a ''*''")
    case True
    then show ?thesis by simp
  next
    case False
    with Cons.prems have "\<exists>b\<in>set bs. startswith b ''*''"
      by auto
    from Cons.IH [OF this, of "n + 1"] False show ?thesis
      by simp
  qed
qed

lemma refresh_returns_when_marked:
  assumes "0 \<le> snd (g (calls s) GitGetBranches)"
    and "\<exists>b\<in>set (splitlines (fst (g (calls s) GitGetBranches))). startswith b ''*''"
  shows "returned (refresh_git_status g s)"
proof -
  from assms(2) have "splitlines (fst (g (calls s) GitGetBranches)) \<noteq> []"
    by auto
  moreover from scan_branches_in_range [OF assms(2), of 0]
  have "scan_branches (splitlines (fst (g (calls s) GitGetBranches))) 0 <
          length (splitlines (fst (g (calls s) GitGetBranches)))"
    by simp
  ultimately show ?thesis
    using assms(1)
    by (simp add: refresh_returned get_repo_branches_menu menu_get_def menu_unfold)
qed

text \<open>
  C1. After a successful fetch the branch panel selects the first entry that starts with
  the marker (\<open>scan_branches_marked\<close>). With no marked entry the loop runs to the end
  and the selection is the number of entries, not 0 (\<open>scan_branches_unmarked\<close>):
  for the branch output of two unmarked lines the selected index is 2, past the end of
  the panel, so that reading the selection raises \<open>IndexError\<close> and the refresh does
  not return.
\<close>

theorem get_repo_branches_unmarked_out_of_range:
  "get_item_list (branch_menu (get_repo_branches unmarked_runner init_manager)) =
     [''  main'', ''  dev''] \<and>
   selected_item (branch_menu (get_repo_branches unmarked_runner init_manager)) = 2 \<and>
   menu_get (branch_menu (get_repo_branches unmarked_runner init_manager)) = Inl IndexError \<and>
   \<not> returned (refresh_git_status unmarked_runner init_manager)"
  by (simp add: refresh_returned get_repo_branches_menu eval_defs)

lemma get_repo_branches_examples:
  "selected_item (branch_menu (get_repo_branches healthy_runner init_manager)) = 0"
  "selected_item (branch_menu (get_repo_branches second_marked_runner init_manager)) = 1"
  by (simp_all add: get_repo_branches_menu eval_defs)

section \<open>Selection across a refresh\<close>

text \<open>
  C2, as stated, fails: a panel whose list shrinks below the saved index is not clamped
  to the last valid index. Three remotes with the third selected, refreshed to two
  remotes, end with index 0 selected, not index 1.
\<close>

theorem refresh_does_not_clamp_counterexample:
  "returned (refresh_git_status healthy_runner repo_manager) \<and>
   selected_item (remotes_menu repo_manager) = 2 \<and>
   get_item_list (remotes_menu (state_of (refresh_git_status healthy_runner repo_manager))) =
     [''origin'', ''upstream''] \<and>
   selected_item (remotes_menu (state_of (refresh_git_status healthy_runner repo_manager))) = 0 \<and>
   selected_item (remotes_menu (state_of (refresh_git_status healthy_runner repo_manager))) \<noteq>
     length (get_item_list
       (remotes_menu (state_of (refresh_git_status healthy_runner repo_manager)))) - 1"
  by (simp add: refresh_returned refresh_remotes_menu get_repo_branches_menu
      get_repo_remotes_menu eval_defs)

text \<open>
  C2, amended. After a refresh that returns, the selected index of the remotes panel and
  of the changed-files panel is the index saved before the refresh when the new item
  list is longer than it; otherwise it is what the panel's own fetch left: 0 after a
  fetch that replaced the items (the index is reset, not clamped to the last item), the
  saved index after a failed fetch, which leaves the panel as it was. So after a
  replacing fetch the index is inside a non-empty panel, and 0 on an empty one.
\<close>

theorem refresh_selection_restored_or_reset:
  assumes "returned (refresh_git_status g s)"
  shows "selected_item (remotes_menu (state_of (refresh_git_status g s))) =
           (if selected_item (remotes_menu s) <
                 length (view_items (remotes_menu (state_of (refresh_git_status g s)))) \<or>
               snd (g (calls s @ [GitGetBranches]) GitGetRemotes) < 0
            then selected_item (remotes_menu s) else 0) \<and>
         selected_item (add_files_menu (state_of (refresh_git_status g s))) =
           (if selected_item (add_files_menu s) <
                 length (view_items (add_files_menu (state_of (refresh_git_status g s)))) \<or>
               snd (g (calls s @ [GitGetBranches, GitGetRemotes]) GitStatusShort) < 0
            then selected_item (add_files_menu s) else 0) \<and>
         (0 \<le> snd (g (calls s @ [GitGetBranches]) GitGetRemotes) \<and>
          view_items (remotes_menu (state_of (refresh_git_status g s))) \<noteq> [] \<longrightarrow>
            selected_item (remotes_menu (state_of (refresh_git_status g s))) <
              length (view_items (remotes_menu (state_of (refresh_git_status g s))))) \<and>
         (0 \<le> snd (g (calls s @ [GitGetBranches, GitGetRemotes]) GitStatusShort) \<and>
          view_items (add_files_menu (state_of (refresh_git_status g s))) \<noteq> [] \<longrightarrow>
            selected_item (add_files_menu (state_of (refresh_git_status g s))) <
              length (view_items (add_files_menu (state_of (refresh_git_status g s)))))"
proof -
  let ?r = "remotes_menu (state_of (refresh_git_status g s))"
  let ?f = "add_files_menu (state_of (refresh_git_status g s))"
  have r: "?r = restore_selection (selected_item (remotes_menu s))
                  (remotes_menu (get_repo_remotes g (get_repo_branches g s)))"
    using assms by (simp add: refresh_remotes_menu)
  have f: "?f = restore_selection (selected_item (add_files_menu s))
                  (add_files_menu
                     (get_repo_status_short g (get_repo_remotes g (get_repo_branches g s))))"
    using assms by (simp add: refresh_add_files_menu)
  have r1: "selected_item ?r =
           (if selected_item (remotes_menu s) < length (view_items ?r) \<or>
               snd (g (calls s @ [GitGetBranches]) GitGetRemotes) < 0
            then selected_item (remotes_menu s) else 0)"
    unfolding r by (simp add: get_repo_remotes_menu menu_unfold)
  have f1: "selected_item ?f =
           (if selected_item (add_files_menu s) < length (view_items ?f) \<or>
               snd (g (calls s @ [GitGetBranches, GitGetRemotes]) GitStatusShort) < 0
            then selected_item (add_files_menu s) else 0)"
    unfolding f by (simp add: get_repo_status_short_menu menu_unfold)
  have r2: "0 \<le> snd (g (calls s @ [GitGetBranches]) GitGetRemotes) \<and> view_items ?r \<noteq> [] \<longrightarrow>
            selected_item ?r < length (view_items ?r)"
    unfolding r by (simp add: get_repo_remotes_menu menu_unfold)
  have f2: "0 \<le> snd (g (calls s @ [GitGetBranches, GitGetRemotes]) GitStatusShort) \<and>
            view_items ?f \<noteq> [] \<longrightarrow> selected_item ?f < length (view_items ?f)"
    unfolding f by (simp add: get_repo_status_short_menu menu_unfold)
  from r1 f1 r2 f2 show ?thesis by blast
qed

theorem refresh_selection_restored_or_reset_witness:
  "returned (refresh_git_status healthy_runner repo_manager) \<and>
   selected_item (remotes_menu (state_of (refresh_git_status healthy_runner repo_manager))) = 0 \<and>
   selected_item (add_files_menu (state_of (refresh_git_status healthy_runner repo_manager))) = 0"
proof -
  have h: "returned (refresh_git_status healthy_runner repo_manager)"
    by (simp add: refresh_returned get_repo_branches_menu eval_defs)
  have n: "length (view_items (remotes_menu
             (state_of (refresh_git_status healthy_runner repo_manager)))) = 2"
    by (simp add: h refresh_remotes_menu get_repo_remotes_menu eval_defs)
  have m: "length (view_items (add_files_menu
             (state_of (refresh_git_status healthy_runner repo_manager)))) = 1"
    by (simp add: h refresh_add_files_menu get_repo_status_short_menu eval_defs)
  have sel: "selected_item (remotes_menu repo_manager) = 2"
    "selected_item (add_files_menu repo_manager) = 0"
    by (simp_all add: eval_defs)
  have ok: "snd (healthy_runner (calls repo_manager @ [GitGetBranches]) GitGetRemotes) = 0"
    by (simp add: healthy_runner_def)
  show ?thesis
    using refresh_selection_restored_or_reset [OF h] h n m sel ok by simp
qed

section \<open>Query failures\<close>

text \<open>
  C5. When the Command Runner answers a query (status-short, remotes, branches, recent
  commits, remote info) with a status below zero, the handler changes nothing but the
  two traces: the call is recorded and an error popup naming the failed query and
  carrying the output is shown; every panel, the info panel included, is as before.
  Within a full refresh the three list fetches are always all made, in order, followed
  by the recent-commits query when the branch panel has a selected entry: each of the
  four panels (branches, remotes, changed files, commits) holds its old items when its
  own fetch failed and the lines of its own output otherwise, whatever the other
  fetches returned; the commits panel is left as it was only when its own query failed
  or the branch panel has nothing to read.
\<close>

theorem query_failure_leaves_panel_unchanged:
  "(snd (g (calls s) GitStatusShort) < 0 \<longrightarrow>
      get_repo_status_short g s =
        s\<lparr>ui_events := ui_events s @
             [ErrorPopup ''Cannot get git status'' (fst (g (calls s) GitStatusShort))],
          calls := calls s @ [GitStatusShort]\<rparr>) \<and>
   (snd (g (calls s) GitGetRemotes) < 0 \<longrightarrow>
      get_repo_remotes g s =
        s\<lparr>ui_events := ui_events s @
             [ErrorPopup ''Cannot get git remotes'' (fst (g (calls s) GitGetRemotes))],
          calls := calls s @ [GitGetRemotes]\<rparr>) \<and>
   (snd (g (calls s) GitGetBranches) < 0 \<longrightarrow>
      get_repo_branches g s =
        s\<lparr>ui_events := ui_events s @
             [ErrorPopup ''Cannot get git branches'' (fst (g (calls s) GitGetBranches))],
          calls := calls s @ [GitGetBranches]\<rparr>) \<and>
   (\<forall>b. menu_get (branch_menu s) = Inr (Some b) \<and>
        snd (g (calls s) (GitGetRecentCommits (drop 2 b))) < 0 \<longrightarrow>
      get_recent_commits g s =
        Done (s\<lparr>ui_events := ui_events s @
                   [ErrorPopup ''Cannot get recent commits''
                      (fst (g (calls s) (GitGetRecentCommits (drop 2 b))))],
                calls := calls s @ [GitGetRecentCommits (drop 2 b)]\<rparr>)) \<and>
   (\<forall>b remote. menu_get (branch_menu s) = Inr (Some b) \<and>
        menu_get (remotes_menu s) = Inr remote \<and>
        snd (g (calls s) (GitGetRemoteInfo remote)) < 0 \<longrightarrow>
      show_remote_info g s =
        Done (s\<lparr>ui_events := ui_events s @
                   [ErrorPopup ''Cannot get remote info''
                      (fst (g (calls s) (GitGetRemoteInfo remote)))],
                calls := calls s @ [GitGetRemoteInfo remote]\<rparr>)) \<and>
   view_items (branch_menu (state_of (refresh_git_status g s))) =
     (if snd (g (calls s) GitGetBranches) < 0 then view_items (branch_menu s)
      else splitlines (fst (g (calls s) GitGetBranches))) \<and>
   view_items (remotes_menu (state_of (refresh_git_status g s))) =
     (if snd (g (calls s @ [GitGetBranches]) GitGetRemotes) < 0
      then view_items (remotes_menu s)
      else splitlines (fst (g (calls s @ [GitGetBranches]) GitGetRemotes))) \<and>
   view_items (add_files_menu (state_of (refresh_git_status g s))) =
     (if snd (g (calls s @ [GitGetBranches, GitGetRemotes]) GitStatusShort) < 0
      then view_items (add_files_menu s)
      else splitlines (fst (g (calls s @ [GitGetBranches, GitGetRemotes]) GitStatusShort))) \<and>
   view_items (commits_menu (state_of (refresh_git_status g s))) =
     (case menu_get (branch_menu (get_repo_branches g s)) of
        Inr (Some b) \<Rightarrow>
          if snd (g (calls s @ [GitGetBranches, GitGetRemotes, GitStatusShort])
                    (GitGetRecentCommits (drop 2 b))) < 0
          then view_items (commits_menu s)
          else splitlines (fst (g (calls s @ [GitGetBranches, GitGetRemotes, GitStatusShort])
                                  (GitGetRecentCommits (drop 2 b))))
      | _ \<Rightarrow> view_items (commits_menu s)) \<and>
   calls (state_of (refresh_git_status g s)) =
     calls s @ [GitGetBranches, GitGetRemotes, GitStatusShort] @
       (case menu_get (branch_menu (get_repo_branches g s)) of
          Inr (Some b) \<Rightarrow> [GitGetRecentCommits (drop 2 b)]
        | _ \<Rightarrow> [])"
proof -
  have a: "snd (g (calls s) GitStatusShort) < 0 \<longrightarrow>
      get_repo_status_short g s =
        s\<lparr>ui_events := ui_events s @
             [ErrorPopup ''Cannot get git status'' (fst (g (calls s) GitStatusShort))],
          calls := calls s @ [GitStatusShort]\<rparr>"
    by (simp add: get_repo_status_short_def query_unfold)
  have b: "snd (g (calls s) GitGetRemotes) < 0 \<longrightarrow>
      get_repo_remotes g s =
        s\<lparr>ui_events := ui_events s @
             [ErrorPopup ''Cannot get git remotes'' (fst (g (calls s) GitGetRemotes))],
          calls := calls s @ [GitGetRemotes]\<rparr>"
    by (simp add: get_repo_remotes_def query_unfold)
  have c: "snd (g (calls s) GitGetBranches) < 0 \<longrightarrow>
      get_repo_branches g s =
        s\<lparr>ui_events := ui_events s @
             [ErrorPopup ''Cannot get git branches'' (fst (g (calls s) GitGetBranches))],
          calls := calls s @ [GitGetBranches]\<rparr>"
    by (simp add: get_repo_branches_def query_unfold)
  have d: "\<forall>b. menu_get (branch_menu s) = Inr (Some b) \<and>
        snd (g (calls s) (GitGetRecentCommits (drop 2 b))) < 0 \<longrightarrow>
      get_recent_commits g s =
        Done (s\<lparr>ui_events := ui_events s @
                   [ErrorPopup ''Cannot get recent commits''
                      (fst (g (calls s) (GitGetRecentCommits (drop 2 b))))],
                calls := calls s @ [GitGetRecentCommits (drop 2 b)]\<rparr>)"
    by (simp add: get_recent_commits_def query_unfold)
  have e: "\<forall>b remote. menu_get (branch_menu s) = Inr (Some b) \<and>
        menu_get (remotes_menu s) = Inr remote \<and>
        snd (g (calls s) (GitGetRemoteInfo remote)) < 0 \<longrightarrow>
      show_remote_info g s =
        Done (s\<lparr>ui_events := ui_events s @
                   [ErrorPopup ''Cannot get remote info''
                      (fst (g (calls s) (GitGetRemoteInfo remote)))],
                calls := calls s @ [GitGetRemoteInfo remote]\<rparr>)"
    by (simp add: show_remote_info_def query_unfold)
  have f: "view_items (branch_menu (state_of (refresh_git_status g s))) =
     (if snd (g (calls s) GitGetBranches) < 0 then view_items (branch_menu s)
      else splitlines (fst (g (calls s) GitGetBranches)))"
    by (simp add: refresh_branch_menu get_repo_branches_menu menu_unfold)
  have rm: "view_items (remotes_menu (state_of (refresh_git_status g s))) =
     (if snd (g (calls s @ [GitGetBranches]) GitGetRemotes) < 0
      then view_items (remotes_menu s)
      else splitlines (fst (g (calls s @ [GitGetBranches]) GitGetRemotes)))"
    by (simp add: refresh_remotes_menu get_repo_remotes_menu menu_unfold)
  have h: "view_items (add_files_menu (state_of (refresh_git_status g s))) =
     (if snd (g (calls s @ [GitGetBranches, GitGetRemotes]) GitStatusShort) < 0
      then view_items (add_files_menu s)
      else splitlines (fst (g (calls s @ [GitGetBranches, GitGetRemotes]) GitStatusShort)))"
    by (simp add: refresh_add_files_menu get_repo_status_short_menu menu_unfold)
  have cm: "view_items (commits_menu (state_of (refresh_git_status g s))) =
     (case menu_get (branch_menu (get_repo_branches g s)) of
        Inr (Some b) \<Rightarrow>
          if snd (g (calls s @ [GitGetBranches, GitGetRemotes, GitStatusShort])
                    (GitGetRecentCommits (drop 2 b))) < 0
          then view_items (commits_menu s)
          else splitlines (fst (g (calls s @ [GitGetBranches, GitGetRemotes, GitStatusShort])
                                  (GitGetRecentCommits (drop 2 b))))
      | _ \<Rightarrow> view_items (commits_menu s))"
    by (simp add: refresh_commits_menu menu_unfold split: sum.split option.split)
  from a b c d e f rm h cm refresh_calls [of g s] show ?thesis
    by (intro conjI)
qed

theorem query_failure_leaves_panel_unchanged_witness:
  "snd (failing_runner (calls repo_manager) GitGetRemotes) < 0 \<and>
   get_repo_remotes failing_runner repo_manager =
     repo_manager\<lparr>ui_events := [ErrorPopup ''Cannot get git remotes''
                                  ''fatal: not a git repository''],
                  calls := [GitGetRemotes]\<rparr> \<and>
   get_recent_commits failing_runner repo_manager =
     Done (repo_manager\<lparr>ui_events := [ErrorPopup ''Cannot get recent commits''
                                        ''fatal: not a git repository''],
                        calls := [GitGetRecentCommits ''main'']\<rparr>) \<and>
   show_remote_info failing_runner repo_manager =
     Done (repo_manager\<lparr>ui_events := [ErrorPopup ''Cannot get remote info''
                                        ''fatal: not a git repository''],
                        calls := [GitGetRemoteInfo (Some ''fork'')]\<rparr>) \<and>
   view_items (branch_menu (state_of (refresh_git_status partial_runner repo_manager))) =
     [''* main'', ''  dev''] \<and>
   view_items (remotes_menu (state_of (refresh_git_status partial_runner repo_manager))) =
     [''origin''] \<and>
   view_items (commits_menu repo_manager) = [] \<and>
   view_items (commits_menu (state_of (refresh_git_status partial_runner repo_manager))) =
     [''abc first'', ''def second''] \<and>
   calls (state_of (refresh_git_status partial_runner repo_manager)) =
     [GitGetBranches, GitGetRemotes, GitStatusShort, GitGetRecentCommits ''main'']"
proof -
  have s0: "calls repo_manager = []" "ui_events repo_manager = []"
    "menu_get (branch_menu repo_manager) = Inr (Some ''* main'')"
    "menu_get (remotes_menu repo_manager) = Inr (Some ''fork'')"
    "view_items (branch_menu repo_manager) = [''* main'', ''  dev'']"
    "view_items (commits_menu repo_manager) = []"
    by (simp_all add: eval_defs)
  have f: "\<And>h c. failing_runner h c = (''fatal: not a git repository'', - 1)"
    by (simp add: failing_runner_def)
  have p: "partial_runner [] GitGetBranches = (''fatal: bad revision'', - 1)"
    "partial_runner [GitGetBranches] GitGetRemotes = (''origin'', 0)"
    "splitlines ''origin'' = [''origin'']"
    "partial_runner [GitGetBranches, GitGetRemotes, GitStatusShort]
       (GitGetRecentCommits ''main'') = (''abc first'' @ [CHR 0x0A] @ ''def second'', 0)"
    "splitlines (''abc first'' @ [CHR 0x0A] @ ''def second'') = [''abc first'', ''def second'']"
    by (simp_all add: partial_runner_def eval_defs)
  have pb: "branch_menu (get_repo_branches partial_runner repo_manager) =
              branch_menu repo_manager"
    by (simp add: get_repo_branches_menu s0 p)
  show ?thesis
    using query_failure_leaves_panel_unchanged [of failing_runner repo_manager]
      query_failure_leaves_panel_unchanged [of partial_runner repo_manager]
    by (simp add: s0 f p pb splitlines_def is_line_boundary_def)
qed

lemmas eval_more = staged_manager_def nonzero_runner_def partial_runner_def

section \<open>Add or revert a file\<close>

text \<open>
  C3, as stated, fails: the refresh does not follow for every status. When staging the
  selected entry \<open>'' M file.txt''\<close> returns status -1, an error popup is shown and no
  query is made: the staging command stays the only call.
\<close>

theorem add_revert_file_no_refresh_counterexample:
  "snd (failing_runner (calls repo_manager) (GitAddFile ''file.txt'')) < 0 \<and>
   add_revert_file failing_runner repo_manager =
     Done (repo_manager
             \<lparr>ui_events := [ErrorPopup ''Cannot add/revert file  M file.txt''
                              ''fatal: not a git repository''],
              calls := [GitAddFile ''file.txt'']\<rparr>) \<and>
   calls (state_of (add_revert_file failing_runner repo_manager)) = [GitAddFile ''file.txt'']"
  by (simp add: add_revert_file_def query_unfold eval_defs)

text \<open>
  C3, amended. With an entry selected in the changed-files panel, the action runs the
  stage command on the entry's path (the entry without its first three characters)
  when the entry starts with a space or \<open>?\<close>, and the unstage/reset command on that
  path otherwise. A full refresh follows exactly when the returned status is not
  negative, so also for a positive (failure) status; for a negative status an error
  popup naming the entry is shown and nothing is refreshed.
\<close>

theorem add_revert_file_stage_or_reset:
  assumes "menu_get (add_files_menu s) = Inr (Some entry)"
  shows "add_revert_file g s =
           (let c = (if startswith entry '' '' \<or> startswith entry ''?''
                     then GitAddFile (drop 3 entry) else GitResetFile (drop 3 entry))
            in if snd (g (calls s) c) < 0
               then Done (s\<lparr>ui_events := ui_events s @
                               [ErrorPopup (''Cannot add/revert file '' @ entry)
                                  (fst (g (calls s) c))],
                            calls := calls s @ [c]\<rparr>)
               else refresh_git_status g (s\<lparr>calls := calls s @ [c]\<rparr>))"
  using assms by (simp add: add_revert_file_def query_unfold)

theorem add_revert_file_stage_or_reset_witness:
  "menu_get (add_files_menu repo_manager) = Inr (Some '' M file.txt'') \<and>
   menu_get (add_files_menu staged_manager) = Inr (Some ''M  staged.txt'') \<and>
   add_revert_file nonzero_runner repo_manager =
     refresh_git_status nonzero_runner (repo_manager\<lparr>calls := [GitAddFile ''file.txt'']\<rparr>) \<and>
   add_revert_file nonzero_runner staged_manager =
     refresh_git_status nonzero_runner
       (staged_manager\<lparr>calls := [GitResetFile ''staged.txt'']\<rparr>) \<and>
   calls (state_of (add_revert_file nonzero_runner repo_manager)) =
     [GitAddFile ''file.txt'', GitGetBranches, GitGetRemotes, GitStatusShort,
      GitGetRecentCommits ''main'']"
proof -
  have a: "menu_get (add_files_menu repo_manager) = Inr (Some '' M file.txt'')"
    by (simp add: eval_defs)
  have b: "menu_get (add_files_menu staged_manager) = Inr (Some ''M  staged.txt'')"
    by (simp add: eval_defs eval_more)
  have c: "calls repo_manager = []" "calls staged_manager = []"
    by (simp_all add: eval_defs eval_more)
  have r: "\<And>h f. nonzero_runner h (GitAddFile f) = (''error: command failed'', 1)"
    "\<And>h f. nonzero_runner h (GitResetFile f) = (''error: command failed'', 1)"
    by (simp_all add: nonzero_runner_def)
  have k: "calls (state_of (refresh_git_status nonzero_runner
             (repo_manager\<lparr>calls := [GitAddFile ''file.txt'']\<rparr>))) =
           [GitAddFile ''file.txt'', GitGetBranches, GitGetRemotes, GitStatusShort,
            GitGetRecentCommits ''main'']"
    by (simp add: refresh_calls get_repo_branches_menu eval_defs eval_more)
  show ?thesis
    using add_revert_file_stage_or_reset [OF a, of nonzero_runner]
      add_revert_file_stage_or_reset [OF b, of nonzero_runner]
    by (simp add: a b c r k startswith_def)
qed

section \<open>Add a remote\<close>

text \<open>
  C8, as stated, fails: the refresh is not skipped for every failing status. When the
  add-remote command returns the failing status 1, the remotes panel is cleared and the
  full refresh runs: the three remotes that were visible are replaced by the two the
  refresh fetched.
\<close>

theorem add_remote_refreshes_on_failure_counterexample:
  "snd (nonzero_runner (calls repo_manager)
          (GitAddRemote (Some ''backup'') ''git@host:repo.git'')) = 1 \<and>
   view_items (remotes_menu repo_manager) = [''origin'', ''upstream'', ''fork''] \<and>
   view_items (remotes_menu (state_of
     (and_then (submit_popup nonzero_runner ''backup'' (ask_new_remote_name repo_manager))
        (submit_popup nonzero_runner ''git@host:repo.git'')))) = [''origin'', ''upstream''] \<and>
   calls (state_of
     (and_then (submit_popup nonzero_runner ''backup'' (ask_new_remote_name repo_manager))
        (submit_popup nonzero_runner ''git@host:repo.git''))) =
     [GitAddRemote (Some ''backup'') ''git@host:repo.git'', GitGetBranches, GitGetRemotes,
      GitStatusShort, GitGetRecentCommits ''main'']"
  by (simp add: submit_popup_def ask_new_remote_name_def ask_new_remote_url_def
      show_text_box_popup_def add_remote_def query_unfold refresh_calls refresh_remotes_menu
      refresh_returned get_repo_branches_menu get_repo_remotes_menu eval_defs eval_more)

text \<open>
  C8, amended. The remote name and the URL are taken from two prompts in sequence, the
  name kept in the pending slot until the URL arrives; then the add-remote command runs
  on both and the slot is empty again. The remotes panel is cleared and the full refresh
  runs exactly when the returned status is not negative, so also for a positive
  (failure) status; for a negative status an error popup is shown, nothing is refreshed
  and the remote list stays as it was.
\<close>

theorem add_remote_refreshes_unless_negative:
  "and_then (submit_popup g name (ask_new_remote_name s)) (submit_popup g url) =
     (let c = GitAddRemote (Some name) url;
          s1 = s\<lparr>ui_events := ui_events s @
                   [TextBoxPopup ''Please enter the new remote name.'' CbAskNewRemoteUrl,
                    TextBoxPopup ''Please enter the new remote url.'' CbAddRemote],
                 popup_command := None, utility_var := None,
                 calls := calls s @ [c]\<rparr>
      in if snd (g (calls s) c) < 0
         then Done (s1\<lparr>ui_events := ui_events s1 @
                          [ErrorPopup ''Failed to add remote'' (fst (g (calls s) c))]\<rparr>)
         else refresh_git_status g (s1\<lparr>remotes_menu := menu_clear (remotes_menu s)\<rparr>))"
  by (simp add: submit_popup_def ask_new_remote_name_def ask_new_remote_url_def
      show_text_box_popup_def add_remote_def query_unfold)

theorem add_remote_refreshes_unless_negative_witness:
  "snd (failing_runner (calls repo_manager)
          (GitAddRemote (Some ''backup'') ''git@host:repo.git'')) < 0 \<and>
   returned (and_then (submit_popup failing_runner ''backup'' (ask_new_remote_name repo_manager))
               (submit_popup failing_runner ''git@host:repo.git'')) \<and>
   view_items (remotes_menu (state_of
     (and_then (submit_popup failing_runner ''backup'' (ask_new_remote_name repo_manager))
        (submit_popup failing_runner ''git@host:repo.git'')))) =
     [''origin'', ''upstream'', ''fork''] \<and>
   calls (state_of
     (and_then (submit_popup failing_runner ''backup'' (ask_new_remote_name repo_manager))
        (submit_popup failing_runner ''git@host:repo.git''))) =
     [GitAddRemote (Some ''backup'') ''git@host:repo.git'']"
proof -
  have f: "\<And>h c. failing_runner h c = (''fatal: not a git repository'', - 1)"
    by (simp add: failing_runner_def)
  have s0: "calls repo_manager = []"
    "view_items (remotes_menu repo_manager) = [''origin'', ''upstream'', ''fork'']"
    by (simp_all add: eval_defs)
  show ?thesis
    using add_remote_refreshes_unless_negative
      [of failing_runner "''backup''" repo_manager "''git@host:repo.git''"]
    by (simp add: f s0)
qed

section \<open>The external editor\<close>

text \<open>
  C9. With an editor configured, \<open>open_editor\<close> called with a file does exactly what it
  does without one: the joined path is computed and dropped, and the editor launch is
  called with the working directory itself, which differs from the joined path of any
  non-empty relative file name. The same holds when the file comes from the selected
  changed-files entry.
\<close>

theorem open_editor_ignores_file:
  assumes "default_editor s = Some editor"
  shows "open_editor g (Some file) s = open_editor g None s \<and>
         calls (open_editor g (Some file) s) =
           calls s @ [OpenDefaultEditor editor (cwd s)] \<and>
         (file \<noteq> [] \<and> \<not> startswith file ''/'' \<longrightarrow> os_path_join (cwd s) file \<noteq> cwd s) \<and>
         (\<forall>entry. menu_get (add_files_menu s) = Inr (Some entry) \<longrightarrow>
            open_editor_file g s = Done (open_editor g None s))"
  using assms
  by (simp add: open_editor_def open_editor_file_def query_unfold show_message_popup_def
      os_path_join_def)

theorem open_editor_ignores_file_witness:
  "default_editor repo_manager = Some ''vim'' \<and>
   calls (open_editor healthy_runner (Some ''file.txt'') repo_manager) =
     [OpenDefaultEditor ''vim'' ''/home/user/repo''] \<and>
   os_path_join (cwd repo_manager) ''file.txt'' = ''/home/user/repo/file.txt'' \<and>
   open_editor_file healthy_runner repo_manager =
     Done (open_editor healthy_runner None repo_manager)"
proof -
  have a: "default_editor repo_manager = Some ''vim''"
    by (simp add: eval_defs)
  have b: "menu_get (add_files_menu repo_manager) = Inr (Some '' M file.txt'')"
    "cwd repo_manager = ''/home/user/repo''" "calls repo_manager = []"
    by (simp_all add: eval_defs)
  have c: "os_path_join ''/home/user/repo'' ''file.txt'' = ''/home/user/repo/file.txt''"
    by (simp add: os_path_join_def startswith_def)
  from open_editor_ignores_file [OF a, of healthy_runner "''file.txt''"]
  have t1: "calls (open_editor healthy_runner (Some ''file.txt'') repo_manager) =
              calls repo_manager @ [OpenDefaultEditor ''vim'' (cwd repo_manager)]"
    and t2: "\<forall>entry. menu_get (add_files_menu repo_manager) = Inr (Some entry) \<longrightarrow>
               open_editor_file healthy_runner repo_manager =
                 Done (open_editor healthy_runner None repo_manager)"
    by blast+
  from t2 b(1) have t3: "open_editor_file healthy_runner repo_manager =
                           Done (open_editor healthy_runner None repo_manager)"
    by blast
  show ?thesis
    using t1 t3 a b c by simp
qed

section \<open>Create a branch\<close>

text \<open>
  What \<open>create_new_branch\<close> does, case by case: with an empty name only the validation
  error is shown and no call is made; with a non-empty name the create command is
  called with exactly that name; on status 0 the input is then cleared and the full
  refresh runs; on any other status the handler is left by \<open>AttributeError\<close> with the
  create command as its only effect.
\<close>

lemma create_new_branch_cases:
  "(new_branch_textbox s = [] \<longrightarrow>
      create_new_branch g s =
        Done (s\<lparr>ui_events := ui_events s @
                   [ErrorPopup ''ERROR - Illegal branchname''
                      ''Please enter a valid branchname.'']\<rparr>)) \<and>
   (new_branch_textbox s \<noteq> [] \<and>
    snd (g (calls s) (GitCreateNewBranch (new_branch_textbox s))) = 0 \<longrightarrow>
      create_new_branch g s =
        refresh_git_status g
          (s\<lparr>calls := calls s @ [GitCreateNewBranch (new_branch_textbox s)],
             ui_events := ui_events s @ [LoseFocus],
             new_branch_textbox := []\<rparr>) \<and>
      new_branch_textbox (state_of (create_new_branch g s)) = [] \<and>
      take (length (calls s) + 4) (calls (state_of (create_new_branch g s))) =
        calls s @ [GitCreateNewBranch (new_branch_textbox s),
                   GitGetBranches, GitGetRemotes, GitStatusShort]) \<and>
   (new_branch_textbox s \<noteq> [] \<and>
    snd (g (calls s) (GitCreateNewBranch (new_branch_textbox s))) \<noteq> 0 \<longrightarrow>
      create_new_branch g s =
        Raised AttributeError
          (s\<lparr>calls := calls s @ [GitCreateNewBranch (new_branch_textbox s)]\<rparr>))"
proof -
  let ?c = "GitCreateNewBranch (new_branch_textbox s)"
  let ?s1 = "s\<lparr>calls := calls s @ [?c], ui_events := ui_events s @ [LoseFocus],
              new_branch_textbox := []\<rparr>"
  have a: "new_branch_textbox s = [] \<longrightarrow>
      create_new_branch g s =
        Done (s\<lparr>ui_events := ui_events s @
                   [ErrorPopup ''ERROR - Illegal branchname''
                      ''Please enter a valid branchname.'']\<rparr>)"
    by (simp add: create_new_branch_def show_error_popup_def)
  have b: "new_branch_textbox s \<noteq> [] \<and> snd (g (calls s) ?c) = 0 \<longrightarrow>
      create_new_branch g s = refresh_git_status g ?s1"
    by (simp add: create_new_branch_def lose_focus_def query_unfold)
  have c: "new_branch_textbox (state_of (refresh_git_status g ?s1)) = []"
    by (simp add: refresh_frame)
  have d: "take (length (calls s) + 4) (calls (state_of (refresh_git_status g ?s1))) =
             calls s @ [?c, GitGetBranches, GitGetRemotes, GitStatusShort]"
    by (simp add: refresh_calls)
  have e: "new_branch_textbox s \<noteq> [] \<and> snd (g (calls s) ?c) \<noteq> 0 \<longrightarrow>
      create_new_branch g s = Raised AttributeError (s\<lparr>calls := calls s @ [?c]\<rparr>)"
    by (simp add: create_new_branch_def query_unfold)
  from a b c d e show ?thesis by simp
qed

text \<open>
  C7. The create-branch action does not clear the input and refresh for every status.
  With the name \<open>feature-x\<close> in the input and the create command returning status 1,
  the command is called with exactly that name, and then the handler is left by
  \<open>AttributeError\<close>: the input still holds \<open>feature-x\<close>, the focus is not lost, no
  popup is shown and no fetch of the refresh is made. (With an empty name the
  validation error is shown and no call is made, and on status 0 the input is cleared
  and the refresh runs: \<open>create_new_branch_cases\<close>.)
\<close>

theorem create_new_branch_failure_raises:
  "new_branch_textbox repo_manager = ''feature-x'' \<and>
   snd (nonzero_runner (calls repo_manager) (GitCreateNewBranch ''feature-x'')) = 1 \<and>
   create_new_branch nonzero_runner repo_manager =
     Raised AttributeError (repo_manager\<lparr>calls := [GitCreateNewBranch ''feature-x'']\<rparr>) \<and>
   new_branch_textbox (state_of (create_new_branch nonzero_runner repo_manager)) =
     ''feature-x'' \<and>
   ui_events (state_of (create_new_branch nonzero_runner repo_manager)) = [] \<and>
   calls (state_of (create_new_branch nonzero_runner repo_manager)) =
     [GitCreateNewBranch ''feature-x'']"
  by (simp add: create_new_branch_def query_unfold eval_defs eval_more)

lemma create_new_branch_examples:
  "create_new_branch nonzero_runner init_manager =
     Done (init_manager\<lparr>ui_events := [ErrorPopup ''ERROR - Illegal branchname''
                                         ''Please enter a valid branchname.'']\<rparr>)"
  "new_branch_textbox (state_of (create_new_branch healthy_runner repo_manager)) = []"
  "take 4 (calls (state_of (create_new_branch healthy_runner repo_manager))) =
     [GitCreateNewBranch ''feature-x'', GitGetBranches, GitGetRemotes, GitStatusShort]"
proof -
  have a: "new_branch_textbox init_manager = []" "ui_events init_manager = []"
    by (simp_all add: eval_defs)
  have b: "new_branch_textbox repo_manager = ''feature-x''" "calls repo_manager = []"
    by (simp_all add: eval_defs)
  have r: "snd (healthy_runner [] (GitCreateNewBranch ''feature-x'')) = 0"
    by (simp add: healthy_runner_def)
  from create_new_branch_cases [of init_manager nonzero_runner] a
  show "create_new_branch nonzero_runner init_manager =
     Done (init_manager\<lparr>ui_events := [ErrorPopup ''ERROR - Illegal branchname''
                                         ''Please enter a valid branchname.'']\<rparr>)"
    by simp
  have ok: "new_branch_textbox repo_manager \<noteq> [] \<and>
            snd (healthy_runner (calls repo_manager)
                   (GitCreateNewBranch (new_branch_textbox repo_manager))) = 0"
    by (simp add: b r)
  note T = create_new_branch_cases [of repo_manager healthy_runner]
  from T ok
  show "new_branch_textbox (state_of (create_new_branch healthy_runner repo_manager)) = []"
    by blast
  from T ok
  have "take (length (calls repo_manager) + 4)
          (calls (state_of (create_new_branch healthy_runner repo_manager))) =
        calls repo_manager @ [GitCreateNewBranch (new_branch_textbox repo_manager),
                              GitGetBranches, GitGetRemotes, GitStatusShort]"
    by blast
  then show "take 4 (calls (state_of (create_new_branch healthy_runner repo_manager))) =
     [GitCreateNewBranch ''feature-x'', GitGetBranches, GitGetRemotes, GitStatusShort]"
    by (simp add: b)
qed

section \<open>Commit\<close>

lemma and_then_returned:
  "returned (and_then r f) = (returned r \<and> returned (f (state_of r)))"
  by (cases r) simp_all

lemma show_log_returned:
  "returned (show_log g s) = (\<not> isl (menu_get (branch_menu s)))"
  by (simp add: show_log_def query_unfold split: sum.split option.split)

lemma refresh_then_show_log_returned:
  "returned (and_then (refresh_git_status g s) (show_log g)) = returned (refresh_git_status g s)"
  by (simp add: and_then_returned show_log_returned refresh_branch_menu refresh_returned)

lemma refresh_then_show_log_raised_box:
  "\<not> returned (refresh_git_status g s) \<Longrightarrow>
   commit_message_box (state_of (and_then (refresh_git_status g s) (show_log g))) =
     commit_message_box s"
  using refresh_frame(1) [of g s] by (cases "refresh_git_status g s") simp_all

text \<open>
  Whenever the commit handler returns, the commit-message box is empty, for every
  message and every status of the commit command. It returns for every status other
  than 0; for status 0 it returns exactly when the refresh it triggers returns, which
  it does whenever the branch list fetched by that refresh marks a current branch.
  When the refresh is left by an exception, the box still holds the message.
\<close>

lemma commit_box_cases:
  "(returned (commit g s) \<longrightarrow> commit_message_box (state_of (commit g s)) = []) \<and>
   (snd (g (calls s) (GitCommitChanges (commit_message_box s))) \<noteq> 0 \<longrightarrow>
      commit g s =
        Done (s\<lparr>calls := calls s @ [GitCommitChanges (commit_message_box s)],
                ui_events := ui_events s @
                  [ErrorPopup ''Commit failed!''
                     (fst (g (calls s) (GitCommitChanges (commit_message_box s))))],
                commit_message_box := []\<rparr>)) \<and>
   (snd (g (calls s) (GitCommitChanges (commit_message_box s))) = 0 \<longrightarrow>
      returned (commit g s) =
        returned (refresh_git_status g
          (s\<lparr>calls := calls s @ [GitCommitChanges (commit_message_box s)],
             ui_events := ui_events s @
               [MessagePopup ''Success'' (''Committed: '' @ commit_message_box s)]\<rparr>))) \<and>
   (snd (g (calls s) (GitCommitChanges (commit_message_box s))) = 0 \<and>
    0 \<le> snd (g (calls s @ [GitCommitChanges (commit_message_box s)]) GitGetBranches) \<and>
    (\<exists>b\<in>set (splitlines
               (fst (g (calls s @ [GitCommitChanges (commit_message_box s)]) GitGetBranches))).
       startswith b ''*'') \<longrightarrow>
      returned (commit g s)) \<and>
   (\<not> returned (commit g s) \<longrightarrow>
      commit_message_box (state_of (commit g s)) = commit_message_box s)"
proof -
  let ?c = "GitCommitChanges (commit_message_box s)"
  let ?s1 = "s\<lparr>calls := calls s @ [?c],
              ui_events := ui_events s @
                [MessagePopup ''Success'' (''Committed: '' @ commit_message_box s)]\<rparr>"
  let ?clear = "\<lambda>s2. Done (s2\<lparr>commit_message_box := []\<rparr>)"
  have fail: "snd (g (calls s) ?c) \<noteq> 0 \<longrightarrow>
      commit g s =
        Done (s\<lparr>calls := calls s @ [?c],
                ui_events := ui_events s @ [ErrorPopup ''Commit failed!'' (fst (g (calls s) ?c))],
                commit_message_box := []\<rparr>)"
    by (simp add: commit_def query_unfold)
  have ok: "snd (g (calls s) ?c) = 0 \<longrightarrow>
      commit g s = and_then (and_then (refresh_git_status g ?s1) (show_log g)) ?clear"
    by (simp add: commit_def query_unfold show_message_popup_def)
  have ret: "snd (g (calls s) ?c) = 0 \<longrightarrow>
      returned (commit g s) = returned (refresh_git_status g ?s1)"
    using ok by (simp add: and_then_Done_returned refresh_then_show_log_returned)
  have box: "returned (commit g s) \<longrightarrow> commit_message_box (state_of (commit g s)) = []"
  proof (cases "snd (g (calls s) ?c) = 0")
    case True
    with ok show ?thesis
      by (simp add: and_then_Done_state and_then_Done_returned)
  next
    case False
    with fail show ?thesis by simp
  qed
  have kept: "\<not> returned (commit g s) \<longrightarrow>
      commit_message_box (state_of (commit g s)) = commit_message_box s"
  proof (cases "snd (g (calls s) ?c) = 0")
    case True
    with ok ret show ?thesis
      using refresh_then_show_log_raised_box [of g ?s1]
      by (simp add: and_then_Done_state and_then_Done_returned
          refresh_then_show_log_returned)
  next
    case False
    with fail show ?thesis by simp
  qed
  have marked: "snd (g (calls s) ?c) = 0 \<and>
      0 \<le> snd (g (calls s @ [?c]) GitGetBranches) \<and>
      (\<exists>b\<in>set (splitlines (fst (g (calls s @ [?c]) GitGetBranches))).
         startswith b ''*'') \<longrightarrow>
      returned (commit g s)"
    using ret refresh_returns_when_marked [of g ?s1] by simp
  from box fail ret marked kept show ?thesis by blast
qed

lemma commit_box_examples:
  "commit_message_box repo_manager = ''fix bug'' \<and>
   snd (healthy_runner (calls repo_manager) (GitCommitChanges ''fix bug'')) = 0 \<and>
   returned (commit healthy_runner repo_manager) \<and>
   commit_message_box (state_of (commit healthy_runner repo_manager)) = [] \<and>
   snd (nonzero_runner (calls repo_manager) (GitCommitChanges ''fix bug'')) = 1 \<and>
   commit nonzero_runner repo_manager =
     Done (repo_manager\<lparr>calls := [GitCommitChanges ''fix bug''],
                        ui_events := [ErrorPopup ''Commit failed!'' ''error: command failed''],
                        commit_message_box := []\<rparr>)"
proof -
  have a: "commit_message_box repo_manager = ''fix bug''" "calls repo_manager = []"
    "ui_events repo_manager = []"
    by (simp_all add: eval_defs)
  have h: "\<And>hist. healthy_runner hist (GitCommitChanges ''fix bug'') = ([], 0)"
    by (simp add: healthy_runner_def)
  have n: "\<And>hist. nonzero_runner hist (GitCommitChanges ''fix bug'') =
             (''error: command failed'', 1)"
    by (simp add: nonzero_runner_def)
  have r: "returned (refresh_git_status healthy_runner
             (repo_manager\<lparr>calls := [GitCommitChanges ''fix bug''],
                ui_events := [MessagePopup ''Success'' ''Committed: fix bug'']\<rparr>))"
    by (simp add: refresh_returned get_repo_branches_menu eval_defs)
  from commit_box_cases [of healthy_runner repo_manager] a h r
  have t1: "returned (commit healthy_runner repo_manager)"
    by simp
  from commit_box_cases [of healthy_runner repo_manager] t1
  have t2: "commit_message_box (state_of (commit healthy_runner repo_manager)) = []"
    by blast
  from commit_box_cases [of nonzero_runner repo_manager] a n
  have t3: "commit nonzero_runner repo_manager =
     Done (repo_manager\<lparr>calls := [GitCommitChanges ''fix bug''],
                        ui_events := [ErrorPopup ''Commit failed!'' ''error: command failed''],
                        commit_message_box := []\<rparr>)"
    by simp
  from a h n t1 t2 t3 show ?thesis by simp
qed


section \<open>Push and pull with credentials\<close>

lemmas trace_defs = prompts_shown_def pulls_run_def pushes_run_def

lemma refresh_pulls_pushes:
  "filter is_pull (calls (state_of (refresh_git_status g s))) = filter is_pull (calls s)"
  "filter is_push (calls (state_of (refresh_git_status g s))) = filter is_push (calls s)"
  by (simp_all add: refresh_calls is_pull_def is_push_def split: sum.split option.split)

lemma pull_repo_branch_trace:
  "pulls_run (state_of (pull_repo_branch g s)) =
     pulls_run s @
       (case menu_get (branch_menu s) of
          Inr (Some b) \<Rightarrow>
            (case menu_get (remotes_menu s) of
               Inr r \<Rightarrow> [GitPullBranch (drop 2 b) r (credentials s)]
             | Inl e \<Rightarrow> [])
        | _ \<Rightarrow> [])"
  "pushes_run (state_of (pull_repo_branch g s)) = pushes_run s"
  "prompts_shown (state_of (pull_repo_branch g s)) = prompts_shown s"
  "credentials (state_of (pull_repo_branch g s)) = credentials s"
  "credentials_callback (state_of (pull_repo_branch g s)) = credentials_callback s"
  by (simp_all add: pull_repo_branch_def trace_defs query_unfold show_message_popup_def
      refresh_pulls_pushes refresh_prompts refresh_frame is_pull_def is_push_def is_prompt_def
      split: sum.split option.split)

lemma perform_long_operation_state:
  "state_of (perform_long_operation label work on_done s) =
     (if returned (work (show_loading_icon_popup label s))
      then on_done (state_of (work (show_loading_icon_popup label s)))
      else state_of (work (show_loading_icon_popup label s)))"
  by (simp add: perform_long_operation_def and_then_Done_state)

lemma show_push_result_trace [simp]:
  "calls (show_push_result s) = calls s"
  "filter is_prompt (ui_events (show_push_result s)) = filter is_prompt (ui_events s)"
  "credentials (show_push_result s) = credentials s"
  "credentials_callback (show_push_result s) = credentials_callback s"
  by (simp_all add: show_push_result_def show_error_popup_def show_message_popup_def
      is_prompt_def)

lemma push_repo_branch_trace:
  "pushes_run (state_of (push_repo_branch g s)) =
     pushes_run s @
       (case menu_get (branch_menu s) of
          Inr (Some b) \<Rightarrow>
            (case menu_get (remotes_menu s) of
               Inr r \<Rightarrow> [GitPushToBranch (drop 2 b) r (credentials s)]
             | Inl e \<Rightarrow> [])
        | _ \<Rightarrow> [])"
  "pulls_run (state_of (push_repo_branch g s)) = pulls_run s"
  "prompts_shown (state_of (push_repo_branch g s)) = prompts_shown s"
  "credentials (state_of (push_repo_branch g s)) = credentials s"
  "credentials_callback (state_of (push_repo_branch g s)) = credentials_callback s"
  by (simp_all add: push_repo_branch_def trace_defs query_unfold stop_loading_popup_def
      and_then_Done_state refresh_pulls_pushes refresh_prompts refresh_frame
      is_pull_def is_push_def is_prompt_def
      split: sum.split option.split)

lemma push_long_trace:
  "pushes_run (state_of (perform_long_operation ''Pushing'' (push_repo_branch g)
                           show_push_result s)) =
     pushes_run s @
       (case menu_get (branch_menu s) of
          Inr (Some b) \<Rightarrow>
            (case menu_get (remotes_menu s) of
               Inr r \<Rightarrow> [GitPushToBranch (drop 2 b) r (credentials s)]
             | Inl e \<Rightarrow> [])
        | _ \<Rightarrow> [])"
  "pulls_run (state_of (perform_long_operation ''Pushing'' (push_repo_branch g)
                          show_push_result s)) = pulls_run s"
  "prompts_shown (state_of (perform_long_operation ''Pushing'' (push_repo_branch g)
                              show_push_result s)) = prompts_shown s"
  "credentials (state_of (perform_long_operation ''Pushing'' (push_repo_branch g)
                            show_push_result s)) = credentials s"
  "credentials_callback (state_of (perform_long_operation ''Pushing'' (push_repo_branch g)
                                     show_push_result s)) = credentials_callback s"
  using push_repo_branch_trace [of g "show_loading_icon_popup ''Pushing'' s"]
  by (simp_all add: perform_long_operation_state trace_defs show_loading_icon_popup_def
      is_prompt_def split: sum.split option.split)

lemma ask_credentials_trace:
  "prompts_shown (ask_credentials cb s) = prompts_shown s @ [CredentialsPrompt cb]"
  "calls (ask_credentials cb s) = calls s"
  by (simp_all add: ask_credentials_def prompts_shown_def is_prompt_def)

lemma pull_after_prompt:
  fixes g :: command_runner and s :: manager and u p :: string
  defines "fin \<equiv> state_of (enter_credentials g u p (ask_credentials CbPullRepoBranch s))"
  shows "prompts_shown fin = prompts_shown s @ [CredentialsPrompt CbPullRepoBranch] \<and>
         length (pulls_run fin) \<le> Suc (length (pulls_run s)) \<and>
         credentials_callback fin = None \<and>
         (\<forall>b r. menu_get (branch_menu s) = Inr (Some b) \<and> menu_get (remotes_menu s) = Inr r \<longrightarrow>
            pulls_run fin = pulls_run s @ [GitPullBranch (drop 2 b) r (Some u, Some p)])"
proof -
  define s1 where "s1 = (ask_credentials CbPullRepoBranch s)
                          \<lparr>credentials := (Some u, Some p), credentials_callback := None\<rparr>"
  have e: "fin = state_of (pull_repo_branch g s1)"
    by (simp add: fin_def enter_credentials_def ask_credentials_def s1_def)
  have f: "branch_menu s1 = branch_menu s" "remotes_menu s1 = remotes_menu s"
    "credentials s1 = (Some u, Some p)" "credentials_callback s1 = None"
    "pulls_run s1 = pulls_run s"
    "prompts_shown s1 = prompts_shown s @ [CredentialsPrompt CbPullRepoBranch]"
    by (simp_all add: s1_def ask_credentials_def trace_defs is_prompt_def)
  show ?thesis
    unfolding e using pull_repo_branch_trace [of g s1]
    by (simp add: f split: sum.split option.split)
qed

lemma push_after_prompt:
  fixes g :: command_runner and s :: manager and u p :: string
  defines "fin \<equiv> state_of (enter_credentials g u p (ask_credentials CbPushRepoBranch s))"
  shows "prompts_shown fin = prompts_shown s @ [CredentialsPrompt CbPushRepoBranch] \<and>
         length (pushes_run fin) \<le> Suc (length (pushes_run s)) \<and>
         credentials_callback fin = None \<and>
         (\<forall>b r. menu_get (branch_menu s) = Inr (Some b) \<and> menu_get (remotes_menu s) = Inr r \<longrightarrow>
            pushes_run fin = pushes_run s @ [GitPushToBranch (drop 2 b) r (Some u, Some p)])"
proof -
  define s1 where "s1 = (ask_credentials CbPushRepoBranch s)
                          \<lparr>credentials := (Some u, Some p), credentials_callback := None\<rparr>"
  have e: "fin = state_of (perform_long_operation ''Pushing'' (push_repo_branch g)
                             show_push_result s1)"
    by (simp add: fin_def enter_credentials_def ask_credentials_def s1_def)
  have f: "branch_menu s1 = branch_menu s" "remotes_menu s1 = remotes_menu s"
    "credentials s1 = (Some u, Some p)" "credentials_callback s1 = None"
    "pushes_run s1 = pushes_run s"
    "prompts_shown s1 = prompts_shown s @ [CredentialsPrompt CbPushRepoBranch]"
    by (simp_all add: s1_def ask_credentials_def trace_defs is_prompt_def)
  show ?thesis
    unfolding e using push_long_trace [of g s1]
    by (simp add: f split: sum.split option.split)
qed

lemma pull_direct:
  "prompts_shown (state_of (pull_repo_branch g s)) = prompts_shown s \<and>
   length (pulls_run (state_of (pull_repo_branch g s))) \<le> Suc (length (pulls_run s)) \<and>
   (\<forall>b r. menu_get (branch_menu s) = Inr (Some b) \<and> menu_get (remotes_menu s) = Inr r \<longrightarrow>
      pulls_run (state_of (pull_repo_branch g s)) =
        pulls_run s @ [GitPullBranch (drop 2 b) r (credentials s)])"
  by (simp add: pull_repo_branch_trace split: sum.split option.split)

lemma push_direct:
  "prompts_shown (state_of (perform_long_operation ''Pushing'' (push_repo_branch g)
                              show_push_result s)) = prompts_shown s \<and>
   length (pushes_run (state_of (perform_long_operation ''Pushing'' (push_repo_branch g)
                                   show_push_result s))) \<le> Suc (length (pushes_run s)) \<and>
   (\<forall>b r. menu_get (branch_menu s) = Inr (Some b) \<and> menu_get (remotes_menu s) = Inr r \<longrightarrow>
      pushes_run (state_of (perform_long_operation ''Pushing'' (push_repo_branch g)
                              show_push_result s)) =
        pushes_run s @ [GitPushToBranch (drop 2 b) r (credentials s)])"
  by (simp add: push_long_trace split: sum.split option.split)

text \<open>
  C4, as stated, fails: the command is not executed exactly once after every prompt.
  On a manager whose branch panel is empty, the pull or push action shows the prompt,
  and when the prompt sequence is completed the operation reads the selected branch,
  finds none and is left by \<open>TypeError\<close> before the command: no call is made to the
  Command Runner at all.
\<close>

theorem credentials_operation_without_branch_counterexample:
  "\<not> were_credentials_entered init_manager \<and>
   pull_repo_branch_cred healthy_runner init_manager =
     Done (ask_credentials CbPullRepoBranch init_manager) \<and>
   push_repo_branch_cred healthy_runner init_manager =
     Done (ask_credentials CbPushRepoBranch init_manager) \<and>
   error_of (enter_credentials healthy_runner ''alice'' ''secret''
               (ask_credentials CbPullRepoBranch init_manager)) = Some TypeError \<and>
   calls (state_of (enter_credentials healthy_runner ''alice'' ''secret''
                      (ask_credentials CbPullRepoBranch init_manager))) = [] \<and>
   error_of (enter_credentials healthy_runner ''alice'' ''secret''
               (ask_credentials CbPushRepoBranch init_manager)) = Some TypeError \<and>
   calls (state_of (enter_credentials healthy_runner ''alice'' ''secret''
                      (ask_credentials CbPushRepoBranch init_manager))) = []"
  by (simp add: pull_repo_branch_cred_def push_repo_branch_cred_def
      were_credentials_entered_def enter_credentials_def ask_credentials_def
      pull_repo_branch_def push_repo_branch_def perform_long_operation_def
      show_loading_icon_popup_def eval_defs)

text \<open>
  C4, amended. While no credentials are supplied, the push or pull action only shows
  the credential prompt, once, with the requested operation as its callback, and makes
  no call to the Command Runner. When the prompt sequence is completed, the operation
  runs with the entered credentials: no further prompt is shown, the callback is
  consumed, and the pull (push) command is run at most once, never twice, and exactly
  once when a branch is selected and the remotes panel can be read. With credentials
  already supplied no prompt is shown and the operation runs directly, its command
  again at most once, and exactly once under the same condition on the panels.
\<close>

theorem credentials_prompted_once_operation_once:
  "(\<not> were_credentials_entered s \<longrightarrow>
      pull_repo_branch_cred g s = Done (ask_credentials CbPullRepoBranch s) \<and>
      push_repo_branch_cred g s = Done (ask_credentials CbPushRepoBranch s) \<and>
      (\<forall>cb. prompts_shown (ask_credentials cb s) = prompts_shown s @ [CredentialsPrompt cb] \<and>
            calls (ask_credentials cb s) = calls s) \<and>
      (let fin = state_of (enter_credentials g u p (ask_credentials CbPullRepoBranch s))
       in prompts_shown fin = prompts_shown s @ [CredentialsPrompt CbPullRepoBranch] \<and>
          length (pulls_run fin) \<le> Suc (length (pulls_run s)) \<and>
          credentials_callback fin = None \<and>
          (\<forall>b r. menu_get (branch_menu s) = Inr (Some b) \<and>
                 menu_get (remotes_menu s) = Inr r \<longrightarrow>
             pulls_run fin = pulls_run s @ [GitPullBranch (drop 2 b) r (Some u, Some p)])) \<and>
      (let fin = state_of (enter_credentials g u p (ask_credentials CbPushRepoBranch s))
       in prompts_shown fin = prompts_shown s @ [CredentialsPrompt CbPushRepoBranch] \<and>
          length (pushes_run fin) \<le> Suc (length (pushes_run s)) \<and>
          credentials_callback fin = None \<and>
          (\<forall>b r. menu_get (branch_menu s) = Inr (Some b) \<and>
                 menu_get (remotes_menu s) = Inr r \<longrightarrow>
             pushes_run fin =
               pushes_run s @ [GitPushToBranch (drop 2 b) r (Some u, Some p)]))) \<and>
   (were_credentials_entered s \<longrightarrow>
      (let fin = state_of (pull_repo_branch_cred g s)
       in prompts_shown fin = prompts_shown s \<and>
          length (pulls_run fin) \<le> Suc (length (pulls_run s)) \<and>
          (\<forall>b r. menu_get (branch_menu s) = Inr (Some b) \<and>
                 menu_get (remotes_menu s) = Inr r \<longrightarrow>
             pulls_run fin = pulls_run s @ [GitPullBranch (drop 2 b) r (credentials s)])) \<and>
      (let fin = state_of (push_repo_branch_cred g s)
       in prompts_shown fin = prompts_shown s \<and>
          length (pushes_run fin) \<le> Suc (length (pushes_run s)) \<and>
          (\<forall>b r. menu_get (branch_menu s) = Inr (Some b) \<and>
                 menu_get (remotes_menu s) = Inr r \<longrightarrow>
             pushes_run fin =
               pushes_run s @ [GitPushToBranch (drop 2 b) r (credentials s)])))"
proof (intro conjI impI)
  assume n: "\<not> were_credentials_entered s"
  show "pull_repo_branch_cred g s = Done (ask_credentials CbPullRepoBranch s)"
    using n by (simp add: pull_repo_branch_cred_def)
  show "push_repo_branch_cred g s = Done (ask_credentials CbPushRepoBranch s)"
    using n by (simp add: push_repo_branch_cred_def)
  show "\<forall>cb. prompts_shown (ask_credentials cb s) = prompts_shown s @ [CredentialsPrompt cb] \<and>
            calls (ask_credentials cb s) = calls s"
    by (simp add: ask_credentials_trace)
  show "let fin = state_of (enter_credentials g u p (ask_credentials CbPullRepoBranch s))
       in prompts_shown fin = prompts_shown s @ [CredentialsPrompt CbPullRepoBranch] \<and>
          length (pulls_run fin) \<le> Suc (length (pulls_run s)) \<and>
          credentials_callback fin = None \<and>
          (\<forall>b r. menu_get (branch_menu s) = Inr (Some b) \<and>
                 menu_get (remotes_menu s) = Inr r \<longrightarrow>
             pulls_run fin = pulls_run s @ [GitPullBranch (drop 2 b) r (Some u, Some p)])"
    unfolding Let_def by (rule pull_after_prompt)
  show "let fin = state_of (enter_credentials g u p (ask_credentials CbPushRepoBranch s))
       in prompts_shown fin = prompts_shown s @ [CredentialsPrompt CbPushRepoBranch] \<and>
          length (pushes_run fin) \<le> Suc (length (pushes_run s)) \<and>
          credentials_callback fin = None \<and>
          (\<forall>b r. menu_get (branch_menu s) = Inr (Some b) \<and>
                 menu_get (remotes_menu s) = Inr r \<longrightarrow>
             pushes_run fin =
               pushes_run s @ [GitPushToBranch (drop 2 b) r (Some u, Some p)])"
    unfolding Let_def by (rule push_after_prompt)
next
  assume y: "were_credentials_entered s"
  then have e: "pull_repo_branch_cred g s = pull_repo_branch g s"
    "push_repo_branch_cred g s =
       perform_long_operation ''Pushing'' (push_repo_branch g) show_push_result s"
    by (simp_all add: pull_repo_branch_cred_def push_repo_branch_cred_def)
  show "let fin = state_of (pull_repo_branch_cred g s)
       in prompts_shown fin = prompts_shown s \<and>
          length (pulls_run fin) \<le> Suc (length (pulls_run s)) \<and>
          (\<forall>b r. menu_get (branch_menu s) = Inr (Some b) \<and>
                 menu_get (remotes_menu s) = Inr r \<longrightarrow>
             pulls_run fin = pulls_run s @ [GitPullBranch (drop 2 b) r (credentials s)])"
    unfolding Let_def e by (rule pull_direct)
  show "let fin = state_of (push_repo_branch_cred g s)
       in prompts_shown fin = prompts_shown s \<and>
          length (pushes_run fin) \<le> Suc (length (pushes_run s)) \<and>
          (\<forall>b r. menu_get (branch_menu s) = Inr (Some b) \<and>
                 menu_get (remotes_menu s) = Inr r \<longrightarrow>
             pushes_run fin =
               pushes_run s @ [GitPushToBranch (drop 2 b) r (credentials s)])"
    unfolding Let_def e by (rule push_direct)
qed

theorem credentials_prompted_once_operation_once_witness:
  "\<not> were_credentials_entered repo_manager \<and>
   pull_repo_branch_cred healthy_runner repo_manager =
     Done (ask_credentials CbPullRepoBranch repo_manager) \<and>
   calls (ask_credentials CbPullRepoBranch repo_manager) = [] \<and>
   prompts_shown (state_of (enter_credentials healthy_runner ''alice'' ''secret''
                              (ask_credentials CbPullRepoBranch repo_manager))) =
     [CredentialsPrompt CbPullRepoBranch] \<and>
   pulls_run (state_of (enter_credentials healthy_runner ''alice'' ''secret''
                          (ask_credentials CbPullRepoBranch repo_manager))) =
     [GitPullBranch ''main'' (Some ''fork'') (Some ''alice'', Some ''secret'')] \<and>
   pushes_run (state_of (enter_credentials healthy_runner ''alice'' ''secret''
                           (ask_credentials CbPushRepoBranch repo_manager))) =
     [GitPushToBranch ''main'' (Some ''fork'') (Some ''alice'', Some ''secret'')] \<and>
   were_credentials_entered logged_in_manager \<and>
   prompts_shown (state_of (pull_repo_branch_cred healthy_runner logged_in_manager)) = [] \<and>
   pulls_run (state_of (pull_repo_branch_cred healthy_runner logged_in_manager)) =
     [GitPullBranch ''main'' (Some ''fork'') (Some ''alice'', Some ''secret'')] \<and>
   pushes_run (state_of (push_repo_branch_cred healthy_runner logged_in_manager)) =
     [GitPushToBranch ''main'' (Some ''fork'') (Some ''alice'', Some ''secret'')]"
proof -
  have a: "\<not> were_credentials_entered repo_manager"
    "menu_get (branch_menu repo_manager) = Inr (Some ''* main'')"
    "menu_get (remotes_menu repo_manager) = Inr (Some ''fork'')"
    "prompts_shown repo_manager = []" "pulls_run repo_manager = []"
    "pushes_run repo_manager = []" "calls repo_manager = []"
    by (simp_all add: were_credentials_entered_def trace_defs eval_defs)
  have b: "were_credentials_entered logged_in_manager"
    "menu_get (branch_menu logged_in_manager) = Inr (Some ''* main'')"
    "menu_get (remotes_menu logged_in_manager) = Inr (Some ''fork'')"
    "prompts_shown logged_in_manager = []" "pulls_run logged_in_manager = []"
    "pushes_run logged_in_manager = []"
    "credentials logged_in_manager = (Some ''alice'', Some ''secret'')"
    by (simp_all add: were_credentials_entered_def trace_defs logged_in_manager_def eval_defs)
  show ?thesis
    using credentials_prompted_once_operation_once
            [of repo_manager healthy_runner "''alice''" "''secret''"]
      credentials_prompted_once_operation_once
            [of logged_in_manager healthy_runner "''alice''" "''secret''"]
    by (simp add: a b Let_def)
qed

section \<open>The settings screen\<close>

text \<open>
  C10. \<open>toggle_editor_type\<close> turns the editor type \<open>Internal\<close> into \<open>External\<close> and
  every other value into \<open>Internal\<close>; applied twice to either of the two values it
  gives the original editor type back.
\<close>

theorem toggle_editor_type_swaps:
  "editor_type (toggle_editor_type s) =
     (if editor_type s = ''Internal'' then ''External'' else ''Internal'') \<and>
   (editor_type s = ''Internal'' \<or> editor_type s = ''External'' \<longrightarrow>
      editor_type (toggle_editor_type (toggle_editor_type s)) = editor_type s)"
  by (auto simp add: toggle_editor_type_def refresh_status_def add_to_settings_log_def)

theorem toggle_editor_type_swaps_witness:
  "editor_type init_manager = ''Internal'' \<and>
   editor_type (toggle_editor_type init_manager) = ''External'' \<and>
   editor_type (toggle_editor_type (toggle_editor_type init_manager)) = ''Internal''"
proof -
  have h: "editor_type init_manager = ''Internal''"
    by (simp add: init_manager_def)
  show ?thesis
    using h toggle_editor_type_swaps [of init_manager] by simp
qed

end
